theory Spec2Isabelle
  imports Complex_Main "HOL-Library.Word"
begin

unbundle bit_operations_syntax

section \<open>JavaScript values\<close>

text \<open>
  The values the engine handles are the values \<open>JSON.parse\<close> produces, plus
  \<open>undefined\<close> (the value of an absent property). Strings are lists of code units
  below 256. An object is an association list in property order, read by its first
  binding of a key.

  A number is a finite double, one of the two infinities, or NaN. Every finite
  double is a rational, and \<open>Fin q\<close> stands for the double of value \<open>q\<close> (the
  two zeros are both \<open>Fin 0\<close>: truthiness, \<open>typeof\<close> and the comparisons with
  0 do not tell them apart). The model never adds two numbers itself: addition,
  with its rounding and its overflow to an infinity, is the platform's
  (\<open>numberAdd\<close> below).
\<close>

datatype jsnum = Fin rat | PosInf | NegInf | NaN

datatype jsval =
    JUndefined
  | JNull
  | JBool bool
  | JNum jsnum
  | JStr string
  | JArr "jsval list"
  | JObj "(string \<times> jsval) list"

text \<open>Truthiness, as \<open>!x\<close>, \<open>x || y\<close> and \<open>x ? a : b\<close> read it.\<close>

fun truthy :: "jsval \<Rightarrow> bool" where
  "truthy JUndefined = False"
| "truthy JNull = False"
| "truthy (JBool b) = b"
| "truthy (JNum x) = (x \<noteq> Fin 0 \<and> x \<noteq> NaN)"
| "truthy (JStr s) = (s \<noteq> [])"
| "truthy (JArr xs) = True"
| "truthy (JObj kvs) = True"

definition js_or :: "jsval \<Rightarrow> jsval \<Rightarrow> jsval" where
  "js_or a b = (if truthy a then a else b)"

fun typeof :: "jsval \<Rightarrow> string" where
  "typeof JUndefined = ''undefined''"
| "typeof JNull = ''object''"
| "typeof (JBool b) = ''boolean''"
| "typeof (JNum x) = ''number''"
| "typeof (JStr s) = ''string''"
| "typeof (JArr xs) = ''object''"
| "typeof (JObj kvs) = ''object''"

fun nullish :: "jsval \<Rightarrow> bool" where
  "nullish JUndefined = True"
| "nullish JNull = True"
| "nullish v = False"

text \<open>
  Property read \<open>v.k\<close> on a value that is neither \<open>null\<close> nor \<open>undefined\<close> (on
  those the read throws a TypeError, which every caller below writes out). The
  property names the engine reads (\<open>tool\<close>, \<open>toolParams\<close>, \<open>description\<close>,
  \<open>taskId\<close>, \<open>id\<close>, \<open>updates\<close>, \<open>expenses\<close>, \<open>item\<close>, \<open>amount\<close>, ...) are not
  properties of the built-in prototypes, so on a string, number, boolean or array
  the read gives \<open>undefined\<close>.
\<close>

fun js_get :: "jsval \<Rightarrow> string \<Rightarrow> jsval" where
  "js_get (JObj kvs) k = (case map_of kvs k of Some v \<Rightarrow> v | None \<Rightarrow> JUndefined)"
| "js_get v k = JUndefined"

text \<open>Property write \<open>{...o, k: v}\<close>: an existing key keeps its place, a new one goes last.\<close>

fun js_set :: "(string \<times> jsval) list \<Rightarrow> string \<Rightarrow> jsval \<Rightarrow> (string \<times> jsval) list" where
  "js_set [] k v = [(k, v)]"
| "js_set ((k', v') # kvs) k v = (if k' = k then (k, v) # kvs else (k', v') # js_set kvs k v)"

section \<open>Strings\<close>

fun startsWith :: "string \<Rightarrow> string \<Rightarrow> bool" where
  "startsWith s [] = True"
| "startsWith [] (p # ps) = False"
| "startsWith (c # cs) (p # ps) = (c = p \<and> startsWith cs ps)"

fun str_includes :: "string \<Rightarrow> string \<Rightarrow> bool" where
  "str_includes [] p = (p = [])"
| "str_includes (c # cs) p = (startsWith (c # cs) p \<or> str_includes cs p)"

definition substring :: "string \<Rightarrow> nat \<Rightarrow> nat \<Rightarrow> string" where
  "substring s a b = take (b - a) (drop a s)"

definition is_space :: "char \<Rightarrow> bool" where
  "is_space c = (c \<in> set [CHR 0x09, CHR 0x0A, CHR 0x0B, CHR 0x0C, CHR 0x0D, CHR 0x20, CHR 0xA0])"

definition trim :: "string \<Rightarrow> string" where
  "trim s = rev (dropWhile is_space (rev (dropWhile is_space s)))"

definition hex_digit :: "nat \<Rightarrow> char" where
  "hex_digit n = ''0123456789abcdef'' ! (n mod 16)"

text \<open>\<open>Buffer.toString('hex')\<close>: two lowercase digits for each byte.\<close>

definition byte_hex :: "8 word \<Rightarrow> string" where
  "byte_hex b = [hex_digit (unat b div 16), hex_digit (unat b mod 16)]"

text \<open>\<open>Number.prototype.toString(16)\<close> on an integer.\<close>

fun hex_of_nat :: "nat \<Rightarrow> string" where
  "hex_of_nat n = (if n < 16 then [hex_digit n] else hex_of_nat (n div 16) @ [hex_digit (n mod 16)])"

declare hex_of_nat.simps [simp del]

definition toString16 :: "int \<Rightarrow> string" where
  "toString16 i = (if i < 0 then CHR ''-'' # hex_of_nat (nat (- i)) else hex_of_nat (nat i))"

section \<open>Errors\<close>

text \<open>
  An \<open>Error\<close> object: its message, and the properties the code attaches to it
  (absent ones are \<open>None\<close>). The \<open>duration\<close> property and the stack are not modelled.
\<close>

record jserror =
  message :: string
  code :: "string option"
  generatedValue :: "string option"
  primaryError :: "string option"
  fallbackError :: "string option"
  cryptoError :: "string option"
  mathError :: "string option"
  timestamp :: "string option"
  tool :: "string option"
  params :: "jsval option"

definition new_Error :: "string \<Rightarrow> jserror" where
  "new_Error msg = \<lparr>message = msg, code = None, generatedValue = None, primaryError = None,
     fallbackError = None, cryptoError = None, mathError = None, timestamp = None,
     tool = None, params = None\<rparr>"

definition coded_Error :: "string \<Rightarrow> string \<Rightarrow> jserror" where
  "coded_Error msg c = (new_Error msg)\<lparr>code := Some c\<rparr>"

text \<open>The TypeError of a property read on \<open>null\<close> or \<open>undefined\<close> (message as V8 words it).\<close>

definition read_TypeError :: "jsval \<Rightarrow> string \<Rightarrow> jserror" where
  "read_TypeError v k = new_Error (''Cannot read properties of ''
     @ (if v = JNull then ''null'' else ''undefined'') @ '' (reading '' @ [CHR 0x27] @ k @ [CHR 0x27] @ '')'')"

section \<open>The environment\<close>

text \<open>
  What a failed upstream call (or an exception inside the handler's try block)
  shows to the handler's catch: \<open>err.message\<close>, \<open>err.code\<close> and
  \<open>err.response?.status\<close>.
\<close>

record http_error =
  err_message :: string
  err_code :: "string option"
  response_status :: "nat option"

text \<open>
  What the engine takes from outside: the three random sources of the identifier
  generator, indexed by the number of the \<open>generateUUID\<close> call that consults them,
  the clock, the platform's date and JSON parsers and number printer, the mode of
  the process, and the two steps of the handler that precede parsing.
  \<^item> \<open>uuidv4 k\<close>: the \<open>uuid\<close> library's result (\<open>Inl\<close>: it threw, with that message);
  \<^item> \<open>randomBytes k\<close>: \<open>crypto.randomBytes(16)\<close> (\<open>Inl\<close>: \<open>require\<close> or the call threw);
  \<^item> \<open>mathRandom k j\<close>: the value of \<open>Math.random() * 16 | 0\<close> at the \<open>j\<close>-th draw,
    an integer (it lies in \<open>0..15\<close> when \<open>Math.random\<close> keeps to \<open>[0, 1)\<close>);
  \<^item> \<open>now\<close>: \<open>new Date().toISOString()\<close>;
  \<^item> \<open>dateValid v\<close>: \<open>!isNaN(new Date(v).getTime())\<close>, for a value \<open>v\<close> that
    converts to a primitive (on the others \<open>new Date(v)\<close> throws, see
    \<open>date_is_NaN\<close>);
  \<^item> \<open>JSON_parse s\<close>: \<open>JSON.parse(s)\<close> (\<open>None\<close>: it threw a SyntaxError);
  \<^item> \<open>numberToString x\<close>: \<open>String(x)\<close> for a number;
  \<^item> \<open>numberAdd x y\<close>: \<open>x + y\<close> for two numbers (IEEE-754 double addition);
  \<^item> \<open>stackTrace err\<close>: \<open>err.stack\<close>;
  \<^item> \<open>development\<close>: \<open>process.env.NODE_ENV === 'development'\<close>;
  \<^item> \<open>buildBasicPrompt body\<close>: the prompt text for a request body (\<open>Inl\<close>: it threw);
  \<^item> \<open>post systemPrompt chatInput\<close>: \<open>response.data\<close> of the awaited completion
    call (\<open>Inl\<close>: the call failed).
\<close>

record env =
  uuidv4 :: "nat \<Rightarrow> string + string"
  randomBytes :: "nat \<Rightarrow> string + 8 word list"
  mathRandom :: "nat \<Rightarrow> nat \<Rightarrow> int"
  now :: string
  dateValid :: "jsval \<Rightarrow> bool"
  JSON_parse :: "string \<Rightarrow> jsval option"
  numberToString :: "jsnum \<Rightarrow> string"
  numberAdd :: "jsnum \<Rightarrow> jsnum \<Rightarrow> jsnum"
  stackTrace :: "jserror \<Rightarrow> string"
  development :: bool
  buildBasicPrompt :: "jsval \<Rightarrow> jserror + string"
  post :: "jsval \<Rightarrow> jsval \<Rightarrow> http_error + jsval"

section \<open>Conversion to a string\<close>

fun join_with :: "string \<Rightarrow> string list \<Rightarrow> string" where
  "join_with sep [] = []"
| "join_with sep [x] = x"
| "join_with sep (x # y # ys) = x @ sep @ join_with sep (y # ys)"

text \<open>
  The conversion of a value to a string (\<open>${v}\<close> in a template literal), and
  with it the conversion of an object to a primitive, which \<open>new Date(v)\<close>
  makes too. \<open>None\<close>: the conversion throws a TypeError. An object decoded from
  JSON holds no function, so an own property \<open>toString\<close> hides the inherited
  method without being callable, and the inherited \<open>valueOf\<close> returns the
  object itself: no primitive is found. An array joins the strings of its
  elements (\<open>null\<close> and \<open>undefined\<close> give the empty string) and throws when
  one of them does.
\<close>

fun js_toString :: "(jsnum \<Rightarrow> string) \<Rightarrow> jsval \<Rightarrow> string option" where
  "js_toString ns JUndefined = Some ''undefined''"
| "js_toString ns JNull = Some ''null''"
| "js_toString ns (JBool b) = Some (if b then ''true'' else ''false'')"
| "js_toString ns (JNum x) = Some (ns x)"
| "js_toString ns (JStr s) = Some s"
| "js_toString ns (JArr xs) =
     map_option (join_with '','')
       (those (map (\<lambda>x. if nullish x then Some [] else js_toString ns x) xs))"
| "js_toString ns (JObj kvs) =
     (if map_of kvs ''toString'' = None then Some ''[object Object]'' else None)"

definition template_of :: "env \<Rightarrow> jsval \<Rightarrow> jserror + string" where
  "template_of e v =
     (case js_toString (numberToString e) v of
        None \<Rightarrow> Inl (new_Error ''Cannot convert object to primitive value'')
      | Some s \<Rightarrow> Inr s)"

text \<open>\<open>isNaN(new Date(v).getTime())\<close>\<close>

definition date_is_NaN :: "env \<Rightarrow> jsval \<Rightarrow> jserror + bool" where
  "date_is_NaN e v =
     (case js_toString (numberToString e) v of
        None \<Rightarrow> Inl (new_Error ''Cannot convert object to primitive value'')
      | Some s \<Rightarrow> Inr (\<not> dateValid e v))"

section \<open>Identifier generator\<close>

text \<open>
  The regular expression
  \<open>/^[0-9a-f]{8}-[0-9a-f]{4}-4[0-9a-f]{3}-[89ab][0-9a-f]{3}-[0-9a-f]{12}$/i\<close>:
  one character class for each position; the \<open>i\<close> flag admits both cases.
\<close>

definition is_hex :: "char \<Rightarrow> bool" where
  "is_hex c = (c \<in> set ''0123456789abcdefABCDEF'')"

definition is_variant :: "char \<Rightarrow> bool" where
  "is_variant c = (c \<in> set ''89abAB'')"

definition is_char :: "char \<Rightarrow> char \<Rightarrow> bool" where
  "is_char d c = (c = d)"

definition uuidPattern :: "(char \<Rightarrow> bool) list" where
  "uuidPattern =
     replicate 8 is_hex @ [is_char CHR ''-''] @
     replicate 4 is_hex @ [is_char CHR ''-''] @
     [is_char CHR ''4''] @ replicate 3 is_hex @ [is_char CHR ''-''] @
     [is_variant] @ replicate 3 is_hex @ [is_char CHR ''-''] @
     replicate 12 is_hex"

definition uuidRegex_test :: "string \<Rightarrow> bool" where
  "uuidRegex_test s = list_all2 (\<lambda>p c. p c) uuidPattern s"

fun isValidUUID :: "jsval \<Rightarrow> bool" where
  "isValidUUID (JStr s) = uuidRegex_test s"
| "isValidUUID v = False"

text \<open>The try block of \<open>generateUUID\<close>: the library's value, validated.\<close>

definition tier_library :: "env \<Rightarrow> nat \<Rightarrow> jserror + string" where
  "tier_library e k =
     (case uuidv4 e k of
        Inl msg \<Rightarrow> Inl (new_Error msg)
      | Inr uuid \<Rightarrow>
          if \<not> uuidRegex_test uuid
          then Inl ((coded_Error ''Generated UUID does not match v4 format'' ''INVALID_UUID_FORMAT'')
                      \<lparr>generatedValue := Some uuid\<rparr>)
          else Inr uuid)"

definition join_groups :: "string \<Rightarrow> string" where
  "join_groups hex =
     substring hex 0 8 @ ''-'' @ substring hex 8 12 @ ''-'' @ substring hex 12 16 @ ''-'' @
     substring hex 16 20 @ ''-'' @ substring hex 20 32"

text \<open>
  The first try block of \<open>generateFallbackUUID\<close>. A write past the end of a
  buffer is ignored, as \<open>list_update\<close> does; a read past the end gives
  \<open>undefined\<close>, which the bit operators take as 0.
\<close>

definition byte_at :: "8 word list \<Rightarrow> nat \<Rightarrow> 8 word" where
  "byte_at bytes i = (if i < length bytes then bytes ! i else 0)"

definition crypto_uuid :: "8 word list \<Rightarrow> string" where
  "crypto_uuid bytes0 =
     (let bytes1 = bytes0[6 := (byte_at bytes0 6 AND 0x0f) OR 0x40];
          bytes2 = bytes1[8 := (byte_at bytes1 8 AND 0x3f) OR 0x80]
      in join_groups (concat (map byte_hex bytes2)))"

definition tier_crypto :: "env \<Rightarrow> nat \<Rightarrow> jserror + string" where
  "tier_crypto e k =
     (case randomBytes e k of
        Inl msg \<Rightarrow> Inl (new_Error msg)
      | Inr bytes \<Rightarrow>
          (let fallbackUuid = crypto_uuid bytes
           in if \<not> isValidUUID (JStr fallbackUuid)
              then Inl (new_Error (''Crypto fallback generated invalid UUID: '' @ fallbackUuid))
              else Inr fallbackUuid))"

text \<open>
  \<open>template.replace(/[xy]/g, f)\<close>: each \<open>x\<close> or \<open>y\<close>, left to right, is replaced
  by \<open>f\<close>'s string for the next random draw.
\<close>

fun replace_xy :: "(nat \<Rightarrow> int) \<Rightarrow> nat \<Rightarrow> string \<Rightarrow> string" where
  "replace_xy rnd j [] = []"
| "replace_xy rnd j (c # cs) =
     (if c = CHR ''x'' \<or> c = CHR ''y''
      then (let r = rnd j;
                v = (if c = CHR ''x'' then r else (r AND 3) OR 8)
            in toString16 v @ replace_xy rnd (Suc j) cs)
      else c # replace_xy rnd j cs)"

definition math_uuid :: "(nat \<Rightarrow> int) \<Rightarrow> string" where
  "math_uuid rnd = replace_xy rnd 0 ''xxxxxxxx-xxxx-4xxx-yxxx-xxxxxxxxxxxx''"

definition tier_math :: "env \<Rightarrow> nat \<Rightarrow> jserror + string" where
  "tier_math e k =
     (let mathRandomUuid = math_uuid (mathRandom e k)
      in if \<not> isValidUUID (JStr mathRandomUuid)
         then Inl (new_Error (''Math.random fallback generated invalid UUID: '' @ mathRandomUuid))
         else Inr mathRandomUuid)"

definition generateFallbackUUID :: "env \<Rightarrow> nat \<Rightarrow> jserror + string" where
  "generateFallbackUUID e k =
     (case tier_crypto e k of
        Inr fallbackUuid \<Rightarrow> Inr fallbackUuid
      | Inl cryptoErr \<Rightarrow>
          (case tier_math e k of
             Inr mathRandomUuid \<Rightarrow> Inr mathRandomUuid
           | Inl mathErr \<Rightarrow>
               Inl ((coded_Error ''All UUID fallback methods failed'' ''FALLBACK_UUID_FAILURE'')
                      \<lparr>cryptoError := Some (message cryptoErr),
                       mathError := Some (message mathErr),
                       timestamp := Some (now e)\<rparr>)))"

definition generateUUID :: "env \<Rightarrow> nat \<Rightarrow> jserror + string" where
  "generateUUID e k =
     (case tier_library e k of
        Inr uuid \<Rightarrow> Inr uuid
      | Inl err \<Rightarrow>
          (case generateFallbackUUID e k of
             Inr fallbackUuid \<Rightarrow> Inr fallbackUuid
           | Inl fallbackErr \<Rightarrow>
               Inl ((coded_Error ''UUID generation system failure'' ''UUID_GENERATION_FAILURE'')
                      \<lparr>primaryError := Some (message err),
                       fallbackError := Some (message fallbackErr),
                       timestamp := Some (now e)\<rparr>)))"

section \<open>Error classifier\<close>

definition retryableCodes :: "string list" where
  "retryableCodes = [''UUID_GENERATION_FAILURE'', ''NETWORK_ERROR'', ''TIMEOUT_ERROR'', ''TEMPORARY_FAILURE'']"

definition isRetryableError :: "jserror \<Rightarrow> bool" where
  "isRetryableError err =
     ((case code err of None \<Rightarrow> False | Some c \<Rightarrow> c \<in> set retryableCodes)
      \<or> str_includes (message err) ''timeout'')"


definition getEntityName :: "string \<Rightarrow> string" where
  "getEntityName toolName =
     (case map_of [(''createReminder'', ''reminder''), (''updateReminder'', ''reminder''),
                   (''createTask'', ''task''), (''updateTask'', ''task''),
                   (''trackExpenses'', ''expense''), (''createGoal'', ''goal''),
                   (''updateGoal'', ''goal''), (''createJournalEntry'', ''journal entry'')] toolName of
        Some n \<Rightarrow> n | None \<Rightarrow> ''item'')"

definition getManualSection :: "string \<Rightarrow> string" where
  "getManualSection toolName =
     (case map_of [(''createReminder'', ''Reminders''), (''updateReminder'', ''Reminders''),
                   (''createTask'', ''Tasks''), (''updateTask'', ''Tasks''),
                   (''trackExpenses'', ''Expenses''), (''createGoal'', ''Goals''),
                   (''updateGoal'', ''Goals''), (''createJournalEntry'', ''Journal'')] toolName of
        Some n \<Rightarrow> n | None \<Rightarrow> ''appropriate'')"

text \<open>
  The two lookups above are read at the tool name's string, \<open>entityMap[toolName]\<close>;
  a name that has none makes \<open>createToolErrorResponse\<close> throw, there or at its
  log line, with the same TypeError. The \<open>switch\<close> statements compare the name
  itself and send every value that is not one of the eight strings to their
  default. The names that a lookup object inherits (\<open>constructor\<close>,
  \<open>toString\<close>, ...) are not in the tables: an error with one of the two
  identifier codes only comes out of a create tool, whose name the dispatcher's
  \<open>switch\<close> has matched.
\<close>

definition getUserFriendlyErrorMessage :: "env \<Rightarrow> jsval \<Rightarrow> jserror \<Rightarrow> string" where
  "getUserFriendlyErrorMessage e toolName err =
     (let name = (case js_toString (numberToString e) toolName of Some s \<Rightarrow> s | None \<Rightarrow> [])
      in if code err = Some ''UUID_GENERATION_FAILURE''
         then ''Unable to create '' @ getEntityName name @ '' due to system error. Please try again.''
         else if code err = Some ''INVALID_UUID_FORMAT''
         then ''System error occurred while creating '' @ getEntityName name @ ''. Please try again.''
         else if toolName = JStr ''createReminder'' then ''Unable to create reminder. Please check your input and try again.''
         else if toolName = JStr ''createTask'' then ''Unable to create task. Please check your input and try again.''
         else if toolName = JStr ''trackExpenses'' then ''Unable to track expenses. Please check your input and try again.''
         else if toolName = JStr ''createGoal'' then ''Unable to create goal. Please check your input and try again.''
         else if toolName = JStr ''createJournalEntry'' then ''Unable to create journal entry. Please check your input and try again.''
         else if toolName = JStr ''updateReminder'' then ''Unable to update reminder. Please try again.''
         else if toolName = JStr ''updateTask'' then ''Unable to update task. Please try again.''
         else if toolName = JStr ''updateGoal'' then ''Unable to update goal. Please try again.''
         else ''An error occurred while processing your request. Please try again.'')"

definition getSuggestedAction :: "env \<Rightarrow> jsval \<Rightarrow> jserror \<Rightarrow> string" where
  "getSuggestedAction e toolName err =
     (let name = (case js_toString (numberToString e) toolName of Some s \<Rightarrow> s | None \<Rightarrow> [])
      in if code err = Some ''UUID_GENERATION_FAILURE'' \<or> code err = Some ''INVALID_UUID_FORMAT''
         then ''Try creating the '' @ getEntityName name @ '' manually in the '' @ getManualSection name @ '' section.''
         else if toolName = JStr ''createReminder'' then ''Try creating the reminder manually in the Reminders section.''
         else if toolName = JStr ''createTask'' then ''Try creating the task manually in the Tasks section.''
         else if toolName = JStr ''trackExpenses'' then ''Try adding the expense manually in the Expenses section.''
         else if toolName = JStr ''createGoal'' then ''Try creating the goal manually in the Goals section.''
         else if toolName = JStr ''createJournalEntry'' then ''Try creating the journal entry manually in the Journal section.''
         else if toolName = JStr ''updateReminder'' then ''Try updating the reminder manually in the Reminders section.''
         else if toolName = JStr ''updateTask'' then ''Try updating the task manually in the Tasks section.''
         else if toolName = JStr ''updateGoal'' then ''Try updating the goal manually in the Goals section.''
         else ''Please try the operation again or contact support if the issue persists.'')"

text \<open>The object \<open>errorResponse\<close> that \<open>createToolErrorResponse\<close> builds.\<close>

definition errorResponse :: "env \<Rightarrow> jsval \<Rightarrow> jserror \<Rightarrow> jsval \<Rightarrow> jsval" where
  "errorResponse e toolName err ps =
     JObj [(''error'', JBool True),
           (''tool'', toolName),
           (''message'', JStr (getUserFriendlyErrorMessage e toolName err)),
           (''technicalDetails'',
              JObj [(''errorMessage'', JStr (message err)),
                    (''errorCode'', JStr (case code err of Some c \<Rightarrow> c | None \<Rightarrow> ''UNKNOWN_ERROR'')),
                    (''timestamp'', JStr (now e)),
                    (''parameters'', ps),
                    (''stack'', if development e then JStr (stackTrace e err) else JUndefined)]),
           (''suggestedAction'', JStr (getSuggestedAction e toolName err)),
           (''retryable'', JBool (isRetryableError err))]"

text \<open>
  \<open>createToolErrorResponse\<close> builds the object, logs it under
  \<open>`Tool execution error [${toolName}]:`\<close>, and returns it: where the tool
  name does not convert to a string, the log line throws.
\<close>

definition createToolErrorResponse :: "env \<Rightarrow> jsval \<Rightarrow> jserror \<Rightarrow> jsval \<Rightarrow> jserror + jsval" where
  "createToolErrorResponse e toolName err ps =
     (case template_of e toolName of
        Inl terr \<Rightarrow> Inl terr
      | Inr label \<Rightarrow> Inr (errorResponse e toolName err ps))"

section \<open>Tool executors\<close>

text \<open>
  Every executor is a try block whose catch attaches the tool and its parameters
  to the error and throws it again. An executor that mints identifiers takes the
  number \<open>n\<close> of \<open>generateUUID\<close> calls made so far and returns the new number; the
  update executors take no such number: they make no call.
\<close>

definition rethrow_with :: "string \<Rightarrow> jsval \<Rightarrow> jserror + 'a \<Rightarrow> jserror + 'a" where
  "rethrow_with toolName ps r =
     (case r of Inl err \<Rightarrow> Inl (err\<lparr>tool := Some toolName, params := Some ps\<rparr>) | Inr v \<Rightarrow> Inr v)"

fun the_str :: "jsval \<Rightarrow> string" where
  "the_str (JStr s) = s"
| "the_str v = []"

text \<open>
  The number that a value is, where the code has just checked
  \<open>typeof v === 'number'\<close> (on any other value the comparison is not evaluated).
\<close>

fun the_num :: "jsval \<Rightarrow> jsnum" where
  "the_num (JNum x) = x"
| "the_num v = NaN"

text \<open>\<open>x <= 0\<close> and \<open>x < 0\<close> on a number.\<close>

fun num_le_zero :: "jsnum \<Rightarrow> bool" where
  "num_le_zero (Fin q) = (q \<le> 0)"
| "num_le_zero PosInf = False"
| "num_le_zero NegInf = True"
| "num_le_zero NaN = False"

fun num_lt_zero :: "jsnum \<Rightarrow> bool" where
  "num_lt_zero (Fin q) = (q < 0)"
| "num_lt_zero PosInf = False"
| "num_lt_zero NegInf = True"
| "num_lt_zero NaN = False"

text \<open>\<open>v.trim()\<close> on a truthy value: a TypeError unless it is a string.\<close>

definition call_trim :: "string \<Rightarrow> jsval \<Rightarrow> jserror + jsval" where
  "call_trim what v =
     (case v of JStr s \<Rightarrow> Inr (JStr (trim s))
      | _ \<Rightarrow> Inl (new_Error (what @ ''.trim is not a function'')))"

definition executeCreateTask :: "env \<Rightarrow> nat \<Rightarrow> jsval \<Rightarrow> (jserror + jsval) \<times> nat" where
  "executeCreateTask e n ps =
     (let (r, n') =
        (if nullish ps then (Inl (read_TypeError ps ''description''), n)
         else if \<not> truthy (js_get ps ''description'') \<or> typeof (js_get ps ''description'') \<noteq> ''string''
         then (Inl (coded_Error ''Task description is required and must be a string'' ''INVALID_PARAMETERS''), n)
         else
           (case generateUUID e n of
              Inl err \<Rightarrow> (Inl err, Suc n)
            | Inr taskId \<Rightarrow>
                if \<not> isValidUUID (JStr taskId)
                then (Inl (coded_Error ''Generated task ID is invalid'' ''INVALID_TASK_ID''), Suc n)
                else (Inr (JObj
                  [(''actionMetadata'',
                      JObj [(''tool'', JStr ''createTask''),
                            (''description'', JStr (trim (the_str (js_get ps ''description'')))),
                            (''priority'', js_or (js_get ps ''priority'') (JStr ''medium'')),
                            (''due_date'', js_get ps ''dueDate''),
                            (''task_id'', JStr taskId)]),
                   (''contextItemId'', JStr taskId),
                   (''contextItemType'', JStr ''task''),
                   (''updatedItemType'', JStr ''task''),
                   (''actionIcon'', JStr ''task'')]), Suc n)))
      in (rethrow_with ''createTask'' ps r, n'))"

definition executeUpdateTask :: "jsval \<Rightarrow> jserror + jsval" where
  "executeUpdateTask ps =
     rethrow_with ''updateTask'' ps
       (if nullish ps then Inl (read_TypeError ps ''taskId'')
        else
          (let taskId = js_or (js_get ps ''taskId'') (js_get ps ''id'')
           in if \<not> truthy taskId \<or> typeof taskId \<noteq> ''string''
              then Inl (coded_Error ''Task ID is required for updates'' ''MISSING_TASK_ID'')
              else if \<not> isValidUUID taskId
              then Inl (coded_Error ''Invalid task ID format'' ''INVALID_TASK_ID_FORMAT'')
              else
                (let updates = js_or (js_get ps ''updates'') ps
                 in if \<not> truthy updates \<or> typeof updates \<noteq> ''object''
                    then Inl (coded_Error ''Update data is required'' ''MISSING_UPDATE_DATA'')
                    else Inr (JObj
                      [(''actionMetadata'',
                          JObj [(''tool'', JStr ''updateTask''),
                                (''task_id'', taskId),
                                (''updates'', updates)]),
                       (''contextItemId'', taskId),
                       (''contextItemType'', JStr ''task''),
                       (''updatedItemType'', JStr ''task''),
                       (''actionIcon'', JStr ''edit'')]))))"

definition executeCreateReminder :: "env \<Rightarrow> nat \<Rightarrow> jsval \<Rightarrow> (jserror + jsval) \<times> nat" where
  "executeCreateReminder e n ps =
     (let (r, n') =
        (if nullish ps then (Inl (read_TypeError ps ''title''), n)
         else if \<not> truthy (js_get ps ''title'') \<or> typeof (js_get ps ''title'') \<noteq> ''string''
         then (Inl (coded_Error ''Reminder title is required and must be a string'' ''INVALID_PARAMETERS''), n)
         else
           (case (if truthy (js_get ps ''scheduledTime'') then date_is_NaN e (js_get ps ''scheduledTime'')
                  else Inr False) of
              Inl err \<Rightarrow> (Inl err, n)
            | Inr True \<Rightarrow> (Inl (coded_Error ''Invalid scheduled time format'' ''INVALID_SCHEDULED_TIME''), n)
            | Inr False \<Rightarrow>
               (case generateUUID e n of
                  Inl err \<Rightarrow> (Inl err, Suc n)
                | Inr reminderId \<Rightarrow>
                    if \<not> isValidUUID (JStr reminderId)
                    then (Inl (coded_Error ''Generated reminder ID is invalid'' ''INVALID_REMINDER_ID''), Suc n)
                    else
                      (case (if truthy (js_get ps ''description'')
                             then call_trim ''params.description'' (js_get ps ''description'')
                             else Inr JNull) of
                         Inl err \<Rightarrow> (Inl err, Suc n)
                       | Inr description \<Rightarrow> (Inr (JObj
                           [(''actionMetadata'',
                               JObj [(''tool'', JStr ''createReminder''),
                                     (''title'', JStr (trim (the_str (js_get ps ''title'')))),
                                     (''description'', description),
                                     (''scheduled_time'', js_get ps ''scheduledTime''),
                                     (''reminder_id'', JStr reminderId)]),
                            (''contextItemId'', JStr reminderId),
                            (''contextItemType'', JStr ''reminder''),
                            (''updatedItemType'', JStr ''reminder''),
                            (''actionIcon'', JStr ''notifications'')]), Suc n)))))
      in (rethrow_with ''createReminder'' ps r, n'))"

definition executeUpdateReminder :: "env \<Rightarrow> jsval \<Rightarrow> jserror + jsval" where
  "executeUpdateReminder e ps =
     rethrow_with ''updateReminder'' ps
       (if nullish ps then Inl (read_TypeError ps ''reminderId'')
        else
          (let reminderId = js_or (js_get ps ''reminderId'') (js_get ps ''id'')
           in if \<not> truthy reminderId \<or> typeof reminderId \<noteq> ''string''
              then Inl (coded_Error ''Reminder ID is required for updates'' ''MISSING_REMINDER_ID'')
              else if \<not> isValidUUID reminderId
              then Inl (coded_Error ''Invalid reminder ID format'' ''INVALID_REMINDER_ID_FORMAT'')
              else
                (let updates = js_or (js_get ps ''updates'') ps
                 in if \<not> truthy updates \<or> typeof updates \<noteq> ''object''
                    then Inl (coded_Error ''Update data is required'' ''MISSING_UPDATE_DATA'')
                    else
                      (case (if truthy (js_get updates ''scheduledTime'')
                             then date_is_NaN e (js_get updates ''scheduledTime'')
                             else Inr False) of
                         Inl err \<Rightarrow> Inl err
                       | Inr True \<Rightarrow>
                           Inl (coded_Error ''Invalid scheduled time format in updates'' ''INVALID_SCHEDULED_TIME'')
                       | Inr False \<Rightarrow> Inr (JObj
                           [(''actionMetadata'',
                               JObj [(''tool'', JStr ''updateReminder''),
                                     (''reminder_id'', reminderId),
                                     (''updates'', updates)]),
                            (''contextItemId'', reminderId),
                            (''contextItemType'', JStr ''reminder''),
                            (''updatedItemType'', JStr ''reminder''),
                            (''actionIcon'', JStr ''edit'')])))))"

text \<open>The decimal numeral of \<open>${i + 1}\<close> in a template literal.\<close>

fun dec_of_nat :: "nat \<Rightarrow> string" where
  "dec_of_nat n = (if n < 10 then [''0123456789'' ! n] else dec_of_nat (n div 10) @ [''0123456789'' ! (n mod 10)])"

declare dec_of_nat.simps [simp del]

fun obj_fields :: "jsval \<Rightarrow> (string \<times> jsval) list" where
  "obj_fields (JObj kvs) = kvs"
| "obj_fields v = []"

text \<open>
  \<open>sum + exp.amount\<close>: on two numbers, the platform's addition. Both operands
  are numbers wherever the code evaluates it (the accumulator starts at 0 and
  every validated amount has passed the \<open>typeof\<close> check), so the other
  equations of \<open>+\<close> are not written out.
\<close>

fun js_plus :: "env \<Rightarrow> jsval \<Rightarrow> jsval \<Rightarrow> jsval" where
  "js_plus e (JNum a) (JNum b) = JNum (numberAdd e a b)"
| "js_plus e a b = JUndefined"

text \<open>\<open>{...expense, item: expense.item.trim(), expense_id: expenseId}\<close>\<close>

definition validated_expense :: "jsval \<Rightarrow> string \<Rightarrow> jsval" where
  "validated_expense expense expenseId =
     JObj (js_set (js_set (obj_fields expense) ''item'' (JStr (trim (the_str (js_get expense ''item'')))))
                  ''expense_id'' (JStr expenseId))"

text \<open>\<open>Array.isArray(params.expenses) ? params.expenses : [params]\<close>\<close>

definition normalize_expenses :: "jsval \<Rightarrow> jsval list" where
  "normalize_expenses ps = (case js_get ps ''expenses'' of JArr xs \<Rightarrow> xs | _ \<Rightarrow> [ps])"

text \<open>
  The \<open>for\<close> loop of \<open>executeTrackExpenses\<close> from index \<open>i\<close> on: the expenses
  still to visit, and \<open>validatedExpenses\<close> so far.
\<close>

fun trackLoop :: "env \<Rightarrow> nat \<Rightarrow> nat \<Rightarrow> jsval list \<Rightarrow> jsval list \<Rightarrow> (jserror + jsval list) \<times> nat" where
  "trackLoop e n i [] validatedExpenses = (Inr validatedExpenses, n)"
| "trackLoop e n i (expense # rest) validatedExpenses =
     (if nullish expense then (Inl (read_TypeError expense ''item''), n)
      else if \<not> truthy (js_get expense ''item'') \<or> typeof (js_get expense ''item'') \<noteq> ''string''
      then (Inl (coded_Error (''Expense '' @ dec_of_nat (i + 1) @ '': Item name is required and must be a string'')
                   ''INVALID_EXPENSE_ITEM''), n)
      else if \<not> truthy (js_get expense ''amount'') \<or> typeof (js_get expense ''amount'') \<noteq> ''number''
              \<or> num_le_zero (the_num (js_get expense ''amount''))
      then (Inl (coded_Error (''Expense '' @ dec_of_nat (i + 1) @ '': Amount must be a positive number'')
                   ''INVALID_EXPENSE_AMOUNT''), n)
      else
        (case generateUUID e n of
           Inl err \<Rightarrow> (Inl err, Suc n)
         | Inr expenseId \<Rightarrow>
             if \<not> isValidUUID (JStr expenseId)
             then (Inl (coded_Error (''Generated expense ID '' @ dec_of_nat (i + 1) @ '' is invalid'')
                          ''INVALID_EXPENSE_ID''), Suc n)
             else trackLoop e (Suc n) (Suc i) rest
                    (validatedExpenses @ [validated_expense expense expenseId])))"

definition executeTrackExpenses :: "env \<Rightarrow> nat \<Rightarrow> jsval \<Rightarrow> (jserror + jsval) \<times> nat" where
  "executeTrackExpenses e n ps =
     (let (r, n') =
        (if nullish ps then (Inl (read_TypeError ps ''expenses''), n)
         else
           (let expenses = normalize_expenses ps
            in if length expenses = 0
               then (Inl (coded_Error ''At least one expense is required'' ''NO_EXPENSES_PROVIDED''), n)
               else
                 (case trackLoop e n 0 expenses [] of
                    (Inl err, n1) \<Rightarrow> (Inl err, n1)
                  | (Inr validatedExpenses, n1) \<Rightarrow>
                      (let totalAmount = foldl (\<lambda>sum exp. js_plus e sum (js_get exp ''amount'')) (JNum (Fin 0)) validatedExpenses
                       in (Inr (JObj
                         [(''actionMetadata'',
                             JObj [(''tool'', JStr ''trackExpenses''),
                                   (''expenses'', JArr validatedExpenses),
                                   (''total_amount'', totalAmount)]),
                          (''multipleActions'',
                             JArr (map (\<lambda>expense. JObj [(''type'', JStr ''expense''),
                                                       (''id'', js_get expense ''expense_id''),
                                                       (''data'', expense)]) validatedExpenses)),
                          (''updatedItemType'', JStr ''expense''),
                          (''actionIcon'', JStr ''receipt'')]), n1)))))
      in (rethrow_with ''trackExpenses'' ps r, n'))"

definition executeCreateGoal :: "env \<Rightarrow> nat \<Rightarrow> jsval \<Rightarrow> (jserror + jsval) \<times> nat" where
  "executeCreateGoal e n ps =
     (let (r, n') =
        (if nullish ps then (Inl (read_TypeError ps ''title''), n)
         else if \<not> truthy (js_get ps ''title'') \<or> typeof (js_get ps ''title'') \<noteq> ''string''
         then (Inl (coded_Error ''Goal title is required and must be a string'' ''INVALID_PARAMETERS''), n)
         else if js_get ps ''target'' \<noteq> JUndefined
                 \<and> (typeof (js_get ps ''target'') \<noteq> ''number'' \<or> num_le_zero (the_num (js_get ps ''target'')))
         then (Inl (coded_Error ''Goal target must be a positive number'' ''INVALID_GOAL_TARGET''), n)
         else if js_get ps ''progress'' \<noteq> JUndefined
                 \<and> (typeof (js_get ps ''progress'') \<noteq> ''number'' \<or> num_lt_zero (the_num (js_get ps ''progress'')))
         then (Inl (coded_Error ''Goal progress must be a non-negative number'' ''INVALID_GOAL_PROGRESS''), n)
         else
           (case generateUUID e n of
              Inl err \<Rightarrow> (Inl err, Suc n)
            | Inr goalId \<Rightarrow>
                if \<not> isValidUUID (JStr goalId)
                then (Inl (coded_Error ''Generated goal ID is invalid'' ''INVALID_GOAL_ID''), Suc n)
                else
                  (case (if truthy (js_get ps ''description'')
                         then call_trim ''params.description'' (js_get ps ''description'')
                         else Inr JNull) of
                     Inl err \<Rightarrow> (Inl err, Suc n)
                   | Inr description \<Rightarrow> (Inr (JObj
                       [(''actionMetadata'',
                           JObj [(''tool'', JStr ''createGoal''),
                                 (''title'', JStr (trim (the_str (js_get ps ''title'')))),
                                 (''description'', description),
                                 (''target'', js_get ps ''target''),
                                 (''progress'', js_or (js_get ps ''progress'') (JNum (Fin 0))),
                                 (''goal_id'', JStr goalId)]),
                        (''contextItemId'', JStr goalId),
                        (''contextItemType'', JStr ''goal''),
                        (''updatedItemType'', JStr ''goal''),
                        (''actionIcon'', JStr ''flag'')]), Suc n))))
      in (rethrow_with ''createGoal'' ps r, n'))"

definition executeUpdateGoal :: "jsval \<Rightarrow> jserror + jsval" where
  "executeUpdateGoal ps =
     rethrow_with ''updateGoal'' ps
       (if nullish ps then Inl (read_TypeError ps ''goalId'')
        else
          (let goalId = js_or (js_get ps ''goalId'') (js_get ps ''id'')
           in if \<not> truthy goalId \<or> typeof goalId \<noteq> ''string''
              then Inl (coded_Error ''Goal ID is required for updates'' ''MISSING_GOAL_ID'')
              else if \<not> isValidUUID goalId
              then Inl (coded_Error ''Invalid goal ID format'' ''INVALID_GOAL_ID_FORMAT'')
              else
                (let updates = js_or (js_get ps ''updates'') ps
                 in if \<not> truthy updates \<or> typeof updates \<noteq> ''object''
                    then Inl (coded_Error ''Update data is required'' ''MISSING_UPDATE_DATA'')
                    else if js_get updates ''target'' \<noteq> JUndefined
                            \<and> (typeof (js_get updates ''target'') \<noteq> ''number'' \<or> num_le_zero (the_num (js_get updates ''target'')))
                    then Inl (coded_Error ''Goal target must be a positive number'' ''INVALID_GOAL_TARGET'')
                    else if js_get updates ''progress'' \<noteq> JUndefined
                            \<and> (typeof (js_get updates ''progress'') \<noteq> ''number'' \<or> num_lt_zero (the_num (js_get updates ''progress'')))
                    then Inl (coded_Error ''Goal progress must be a non-negative number'' ''INVALID_GOAL_PROGRESS'')
                    else Inr (JObj
                      [(''actionMetadata'',
                          JObj [(''tool'', JStr ''updateGoal''),
                                (''goal_id'', goalId),
                                (''updates'', updates)]),
                       (''contextItemId'', goalId),
                       (''contextItemType'', JStr ''goal''),
                       (''updatedItemType'', JStr ''goal''),
                       (''actionIcon'', JStr ''edit'')]))))"

definition executeCreateJournalEntry :: "env \<Rightarrow> nat \<Rightarrow> jsval \<Rightarrow> (jserror + jsval) \<times> nat" where
  "executeCreateJournalEntry e n ps =
     (let (r, n') =
        (if nullish ps then (Inl (read_TypeError ps ''content''), n)
         else if \<not> truthy (js_get ps ''content'') \<or> typeof (js_get ps ''content'') \<noteq> ''string''
         then (Inl (coded_Error ''Journal entry content is required and must be a string'' ''INVALID_PARAMETERS''), n)
         else if truthy (js_get ps ''mood'') \<and> typeof (js_get ps ''mood'') \<noteq> ''string''
         then (Inl (coded_Error ''Journal entry mood must be a string'' ''INVALID_MOOD_FORMAT''), n)
         else
           (case generateUUID e n of
              Inl err \<Rightarrow> (Inl err, Suc n)
            | Inr entryId \<Rightarrow>
                if \<not> isValidUUID (JStr entryId)
                then (Inl (coded_Error ''Generated journal entry ID is invalid'' ''INVALID_ENTRY_ID''), Suc n)
                else (Inr (JObj
                  [(''actionMetadata'',
                      JObj [(''tool'', JStr ''createJournalEntry''),
                            (''content'', JStr (trim (the_str (js_get ps ''content'')))),
                            (''mood'', if truthy (js_get ps ''mood'')
                                       then JStr (trim (the_str (js_get ps ''mood''))) else JNull),
                            (''entry_id'', JStr entryId)]),
                   (''contextItemId'', JStr entryId),
                   (''contextItemType'', JStr ''journal''),
                   (''updatedItemType'', JStr ''journal''),
                   (''actionIcon'', JStr ''book'')]), Suc n)))
      in (rethrow_with ''createJournalEntry'' ps r, n'))"

definition executeGeneralChat :: "jsval \<Rightarrow> jserror + jsval" where
  "executeGeneralChat ps =
     rethrow_with ''generalChat'' ps
       (if nullish ps then Inl (read_TypeError ps ''tone'')
        else
          (let tone = js_or (js_get ps ''tone'') (JStr ''neutral'');
               response = js_or (js_get ps ''response'') (JStr [])
           in Inr (JObj
                [(''actionMetadata'',
                    JObj [(''tool'', JStr ''generalChat''),
                          (''tone'', tone),
                          (''response'', response)]),
                 (''actionIcon'', JStr ''chat'')])))"

section \<open>Tool dispatcher\<close>

text \<open>The \<open>switch\<close> of \<open>executeToolIfNeeded\<close>.\<close>

definition run_tool :: "env \<Rightarrow> nat \<Rightarrow> jsval \<Rightarrow> jsval \<Rightarrow> (jserror + jsval) \<times> nat" where
  "run_tool e n toolName toolParams =
     (if toolName = JStr ''createTask'' then executeCreateTask e n toolParams
      else if toolName = JStr ''updateTask'' then (executeUpdateTask toolParams, n)
      else if toolName = JStr ''createReminder'' then executeCreateReminder e n toolParams
      else if toolName = JStr ''updateReminder'' then (executeUpdateReminder e toolParams, n)
      else if toolName = JStr ''trackExpenses'' then executeTrackExpenses e n toolParams
      else if toolName = JStr ''createGoal'' then executeCreateGoal e n toolParams
      else if toolName = JStr ''updateGoal'' then (executeUpdateGoal toolParams, n)
      else if toolName = JStr ''createJournalEntry'' then executeCreateJournalEntry e n toolParams
      else if toolName = JStr ''generalChat'' then (executeGeneralChat toolParams, n)
      else
        (case template_of e toolName of
           Inl terr \<Rightarrow> (Inl terr, n)
         | Inr name \<Rightarrow> (Inl (coded_Error (''Unknown tool: '' @ name) ''UNKNOWN_TOOL''), n)))"

text \<open>
  \<open>executeToolIfNeeded\<close> throws in three places that none of its handlers
  covers. It reads two properties of its argument before its try block: on
  \<open>null\<close> or \<open>undefined\<close> that read throws. When the parameters are
  missing, its warning formats \<open>${toolName}\<close>, outside the try block. Inside
  the try block the first statement formats \<open>${toolName}\<close> too; when that
  throws, the catch calls \<open>createToolErrorResponse\<close>, whose own log line
  formats the same name and throws out of the catch.
\<close>

definition executeToolIfNeeded :: "env \<Rightarrow> nat \<Rightarrow> jsval \<Rightarrow> (jserror + jsval) \<times> nat" where
  "executeToolIfNeeded e n parsedResponse =
     (if nullish parsedResponse then (Inl (read_TypeError parsedResponse ''tool''), n)
      else
        (let toolName = js_or (js_get parsedResponse ''tool'') (js_get parsedResponse ''selectedTool'');
             toolParams = js_or (js_get parsedResponse ''toolParams'') (js_get parsedResponse ''parameters'')
         in if \<not> truthy toolName then (Inr (JObj []), n)
            else if \<not> truthy toolParams
            then (case template_of e toolName of
                    Inl terr \<Rightarrow> (Inl terr, n)
                  | Inr name \<Rightarrow> (Inr (JObj []), n))
            else
              (case (case template_of e toolName of
                       Inl terr \<Rightarrow> (Inl terr, n)
                     | Inr name \<Rightarrow> run_tool e n toolName toolParams) of
                 (Inr result, n') \<Rightarrow> (Inr result, n')
               | (Inl err, n') \<Rightarrow>
                   (case createToolErrorResponse e toolName err toolParams of
                      Inl terr \<Rightarrow> (Inl terr, n')
                    | Inr details \<Rightarrow> (Inr (JObj [(''errorDetails'', details)]), n')))))"

section \<open>Response parser\<close>

text \<open>
  \<open>aiMessage.match(/\{[\s\S]*\}/)\<close>: the leftmost match starts at the first
  \<open>{\<close>, and the greedy star runs to the last \<open>}\<close>; no \<open>}\<close> after the first \<open>{\<close>
  means no match at all.
\<close>

definition brace_match :: "string \<Rightarrow> string option" where
  "brace_match s =
     (let t = dropWhile (\<lambda>c. c \<noteq> CHR ''{'') s
      in if t = [] then None
         else
           (let m = rev (dropWhile (\<lambda>c. c \<noteq> CHR ''}'') (rev t))
            in if m = [] then None else Some m))"

definition plain_text_response :: "jsval \<Rightarrow> jsval" where
  "plain_text_response aiMessage =
     JObj [(''aiResponseText'', aiMessage),
           (''actionMetadata'', JNull),
           (''contextItemId'', JNull),
           (''contextItemType'', JNull),
           (''updatedItemType'', JNull),
           (''actionIcon'', JNull),
           (''multipleActions'', JNull),
           (''errorDetails'', JNull)]"

text \<open>The object that the try block of \<open>parseAIResponse\<close> returns.\<close>

definition merged_response :: "jsval \<Rightarrow> jsval \<Rightarrow> jsval \<Rightarrow> jsval" where
  "merged_response aiMessage parsed toolResult =
     JObj [(''aiResponseText'', js_or (js_get parsed ''aiResponseText'') aiMessage),
           (''actionMetadata'', js_or (js_get toolResult ''actionMetadata'')
              (js_or (js_get parsed ''actionMetadata'') JNull)),
           (''contextItemId'', js_or (js_get toolResult ''contextItemId'')
              (js_or (js_get parsed ''contextItemId'') JNull)),
           (''contextItemType'', js_or (js_get toolResult ''contextItemType'')
              (js_or (js_get parsed ''contextItemType'') JNull)),
           (''updatedItemType'', js_or (js_get toolResult ''updatedItemType'')
              (js_or (js_get parsed ''updatedItemType'') JNull)),
           (''actionIcon'', js_or (js_get toolResult ''actionIcon'')
              (js_or (js_get parsed ''actionIcon'') JNull)),
           (''multipleActions'', js_or (js_get toolResult ''multipleActions'')
              (js_or (js_get parsed ''multipleActions'') JNull)),
           (''errorDetails'', js_or (js_get parsed ''errorDetails'') JNull)]"

text \<open>
  The try block of \<open>parseAIResponse\<close>: \<open>Inl\<close> when it throws, \<open>Inr None\<close> when it
  falls through without a match, \<open>Inr (Some r)\<close> when it returns \<open>r\<close>. A value
  that is not a string has no \<open>match\<close> method.
\<close>

definition parseAIResponse_try :: "env \<Rightarrow> nat \<Rightarrow> jsval \<Rightarrow> (jserror + jsval option) \<times> nat" where
  "parseAIResponse_try e n aiMessage =
     (case aiMessage of
        JStr s \<Rightarrow>
          (case brace_match s of
             None \<Rightarrow> (Inr None, n)
           | Some jsonMatch \<Rightarrow>
               (case JSON_parse e jsonMatch of
                  None \<Rightarrow> (Inl (new_Error ''SyntaxError''), n)
                | Some parsed \<Rightarrow>
                    (case executeToolIfNeeded e n parsed of
                       (Inl err, n') \<Rightarrow> (Inl err, n')
                     | (Inr toolResult, n') \<Rightarrow>
                         (Inr (Some (merged_response aiMessage parsed toolResult)), n'))))
      | _ \<Rightarrow> (Inl (new_Error ''aiMessage.match is not a function''), n))"

definition parseAIResponse :: "env \<Rightarrow> nat \<Rightarrow> jsval \<Rightarrow> jsval \<times> nat" where
  "parseAIResponse e n aiMessage =
     (case parseAIResponse_try e n aiMessage of
        (Inr (Some r), n') \<Rightarrow> (r, n')
      | (Inr None, n') \<Rightarrow> (plain_text_response aiMessage, n')
      | (Inl err, n') \<Rightarrow> (plain_text_response aiMessage, n'))"

section \<open>Request handler\<close>

definition lower_char :: "char \<Rightarrow> char" where
  "lower_char c =
     (let k = (of_char c :: nat)
      in if (65 \<le> k \<and> k \<le> 90) \<or> (192 \<le> k \<and> k \<le> 222 \<and> k \<noteq> 215) then char_of (k + 32) else c)"

definition toLowerCase :: "string \<Rightarrow> string" where
  "toLowerCase s = map lower_char s"

definition isIdentityQuestion :: "jsval \<Rightarrow> jserror + bool" where
  "isIdentityQuestion input =
     (if \<not> truthy input then Inr False
      else
        (case input of
           JStr s \<Rightarrow>
             (let lower = toLowerCase s
              in Inr (str_includes lower ''who made you'' \<or>
                      str_includes lower ''who created you'' \<or>
                      str_includes lower ''your creator'' \<or>
                      str_includes lower ''who built you'' \<or>
                      str_includes lower ''origin'' \<or>
                      str_includes lower ''where are you from''))
         | _ \<Rightarrow> Inl (new_Error ''input.toLowerCase is not a function'')))"

text \<open>
  What the handler sends, and what it did on the way: how often it built a prompt
  and how often it called the completion endpoint.
\<close>

record reply =
  statusCode :: nat
  json :: jsval
  promptBuilds :: nat
  upstreamCalls :: nat

definition identity_reply :: reply where
  "identity_reply =
     \<lparr>statusCode = 200,
      json = JObj [(''aiResponseText'', JStr ''I was built with care by some awesome humans, led by Aakash.''),
                   (''actionMetadata'', JNull),
                   (''contextItemId'', JNull),
                   (''contextItemType'', JNull),
                   (''updatedItemType'', JNull),
                   (''actionIcon'', JStr ''info''),
                   (''multipleActions'', JNull),
                   (''errorDetails'', JNull)],
      promptBuilds = 0, upstreamCalls = 0\<rparr>"

text \<open>The catch block of the handler.\<close>

definition error_reply :: "env \<Rightarrow> http_error \<Rightarrow> nat \<Rightarrow> nat \<Rightarrow> reply" where
  "error_reply e err builds calls =
     (let st = response_status err;
          (userMessage, code', retryable) =
            (if st = Some 401 then (''Authentication error. Please contact support.'', 401, False)
             else if st = Some 429 then (''Service is temporarily busy. Please try again in a moment.'', 429, True)
             else if (case st of Some k \<Rightarrow> 400 \<le> k \<and> k < 500 | None \<Rightarrow> False)
             then (''Invalid request. Please try rephrasing your message.'', 400, False)
             else if err_code err = Some ''ECONNREFUSED'' \<or> err_code err = Some ''ENOTFOUND''
             then (''Unable to connect to AI service. Please try again later.'', 503, True)
             else (''Sorry, I encountered an error processing your request. Please try again.'', 500, True))
      in \<lparr>statusCode = code',
          json = JObj
            [(''error'', JStr ''AI API error''),
             (''details'', JStr (if development e then err_message err else ''Internal server error'')),
             (''aiResponseText'', JStr userMessage),
             (''actionMetadata'', JNull),
             (''contextItemId'', JNull),
             (''contextItemType'', JNull),
             (''updatedItemType'', JNull),
             (''actionIcon'', JStr ''error''),
             (''errorDetails'',
                JObj [(''retryable'', JBool retryable),
                      (''errorCode'',
                         (case st of
                            Some k \<Rightarrow> if k \<noteq> 0 then JNum (Fin (of_nat k))
                                      else (case err_code err of Some c \<Rightarrow> js_or (JStr c) (JStr ''UNKNOWN_ERROR'')
                                            | None \<Rightarrow> JStr ''UNKNOWN_ERROR'')
                          | None \<Rightarrow> (case err_code err of Some c \<Rightarrow> js_or (JStr c) (JStr ''UNKNOWN_ERROR'')
                                     | None \<Rightarrow> JStr ''UNKNOWN_ERROR''))),
                      (''timestamp'', JStr (now e)),
                      (''suggestedAction'', JStr (if retryable then ''Please try again''
                                                  else ''Please contact support if the issue persists''))])],
          promptBuilds = builds, upstreamCalls = calls\<rparr>)"

definition thrown :: "jserror \<Rightarrow> http_error" where
  "thrown err = \<lparr>err_message = message err, err_code = code err, response_status = None\<rparr>"

text \<open>\<open>v?.[0]\<close> and \<open>v?.k\<close>.\<close>

fun opt_first :: "jsval \<Rightarrow> jsval" where
  "opt_first (JArr (x # xs)) = x"
| "opt_first (JStr (c # cs)) = JStr [c]"
| "opt_first (JObj kvs) = js_get (JObj kvs) ''0''"
| "opt_first v = JUndefined"

text \<open>The TypeError of destructuring an absent \<open>req.body\<close> (message as V8 words it).\<close>

definition destructure_TypeError :: "jsval \<Rightarrow> jserror" where
  "destructure_TypeError v = new_Error (''Cannot destructure property '' @ [CHR 0x27] @ ''chatInput''
     @ [CHR 0x27] @ '' of '' @ [CHR 0x27] @ ''req.body'' @ [CHR 0x27] @ '' as it is ''
     @ (if v = JNull then ''null'' else ''undefined'') @ ''.'')"

definition opt_get :: "jsval \<Rightarrow> string \<Rightarrow> jsval" where
  "opt_get v k = (if nullish v then JUndefined else js_get v k)"

text \<open>
  The handler of \<open>POST /api/v1/chat\<close> on a request body. An exception outside
  its try block (destructuring an absent body, \<open>toLowerCase\<close> on a value that is
  not a string) leaves the handler: \<open>Inl\<close>.
\<close>

definition chat_handler :: "env \<Rightarrow> nat \<Rightarrow> jsval \<Rightarrow> (jserror + reply) \<times> nat" where
  "chat_handler e n reqBody =
     (if nullish reqBody then (Inl (destructure_TypeError reqBody), n)
      else
        (let chatInput = js_get reqBody ''chatInput''
         in if \<not> truthy chatInput
            then (Inr \<lparr>statusCode = 400,
                       json = JObj [(''error'', JStr ''Missing chatInput in request body'')],
                       promptBuilds = 0, upstreamCalls = 0\<rparr>, n)
            else
              (case isIdentityQuestion chatInput of
                 Inl err \<Rightarrow> (Inl err, n)
               | Inr True \<Rightarrow> (Inr identity_reply, n)
               | Inr False \<Rightarrow>
                   (let builds = (if truthy (js_get reqBody ''masterPrompt'') then 0 else 1)
                    in case (if truthy (js_get reqBody ''masterPrompt'') then Inr (js_get reqBody ''masterPrompt'')
                             else map_sum id JStr (buildBasicPrompt e reqBody)) of
                         Inl err \<Rightarrow> (Inr (error_reply e (thrown err) builds 0), n)
                       | Inr systemPrompt \<Rightarrow>
                           (case post e systemPrompt chatInput of
                              Inl err \<Rightarrow> (Inr (error_reply e err builds 1), n)
                            | Inr data \<Rightarrow>
                                if nullish data
                                then (Inr (error_reply e (thrown (read_TypeError data ''choices'')) builds 1), n)
                                else
                                  (let aiMessage = js_or (opt_get (opt_get (opt_first (opt_get data ''choices'')) ''message'') ''content'')
                                                         (JStr []);
                                       (parsedResponse, n') = parseAIResponse e n aiMessage
                                   in (Inr \<lparr>statusCode = 200,
                                             json = JObj
                                               [(''aiResponseText'', js_get parsedResponse ''aiResponseText''),
                                                (''actionMetadata'', js_get parsedResponse ''actionMetadata''),
                                                (''contextItemId'', js_get parsedResponse ''contextItemId''),
                                                (''contextItemType'', js_get parsedResponse ''contextItemType''),
                                                (''updatedItemType'', js_get parsedResponse ''updatedItemType''),
                                                (''actionIcon'', js_get parsedResponse ''actionIcon''),
                                                (''multipleActions'', js_get parsedResponse ''multipleActions''),
                                                (''errorDetails'', js_get parsedResponse ''errorDetails'')],
                                             promptBuilds = builds, upstreamCalls = 1\<rparr>, n')))))))"

section \<open>Predicates of the stated properties\<close>

text \<open>
  "The message contains the phrase, case-insensitively": at some position of the
  message the phrase's characters follow, up to case.
\<close>

fun matches_ignoring_case :: "string \<Rightarrow> string \<Rightarrow> bool" where
  "matches_ignoring_case s [] = True"
| "matches_ignoring_case [] (p # ps) = False"
| "matches_ignoring_case (c # cs) (p # ps) = (lower_char c = lower_char p \<and> matches_ignoring_case cs ps)"

fun contains_ignoring_case :: "string \<Rightarrow> string \<Rightarrow> bool" where
  "contains_ignoring_case [] p = (p = [])"
| "contains_ignoring_case (c # cs) p = (matches_ignoring_case (c # cs) p \<or> contains_ignoring_case cs p)"

definition identity_phrases :: "string list" where
  "identity_phrases = [''who made you'', ''who created you'', ''your creator'', ''who built you'',
                       ''origin'', ''where are you from'']"

text \<open>The six structured fields that \<open>parseAIResponse\<close> merges from the dispatcher's output.\<close>

definition merged_fields :: "string list" where
  "merged_fields = [''actionMetadata'', ''contextItemId'', ''contextItemType'', ''updatedItemType'',
                    ''actionIcon'', ''multipleActions'']"

text \<open>An expense item that passes the two checks of the loop.\<close>

definition expense_ok :: "jsval \<Rightarrow> bool" where
  "expense_ok expense =
     (\<not> nullish expense
      \<and> truthy (js_get expense ''item'') \<and> typeof (js_get expense ''item'') = ''string''
      \<and> truthy (js_get expense ''amount'') \<and> typeof (js_get expense ''amount'') = ''number''
      \<and> \<not> num_le_zero (the_num (js_get expense ''amount'')))"

section \<open>Sample environments and inputs\<close>

text \<open>
  Concrete inputs for the closed theorems below. \<open>sample_parse\<close> is
  \<open>JSON.parse\<close> on the sample texts, and rejects every other text.
  \<open>sample_add\<close> is the platform's addition where one operand is 0 (then the
  sum is the other operand, exactly); the samples add nothing else, and print no
  number.
\<close>

definition createTask_reply_text :: string where
  \<open>createTask_reply_text = ''{"tool":"createTask","toolParams":{}}''\<close>

definition alias_reply_text :: string where
  \<open>alias_reply_text = ''{"aiResponseText":"Done","selectedTool":"createTask","parameters":{"description":"buy milk"},"contextItemId":"forged","actionIcon":"star"}''\<close>

definition odd_tool_reply_text :: string where
  \<open>odd_tool_reply_text = ''{"tool":{"toString":1},"toolParams":{"a":1}}''\<close>

definition sample_parse :: "string \<Rightarrow> jsval option" where
  "sample_parse s =
     (if s = createTask_reply_text
      then Some (JObj [(''tool'', JStr ''createTask''), (''toolParams'', JObj [])])
      else if s = alias_reply_text
      then Some (JObj [(''aiResponseText'', JStr ''Done''),
                       (''selectedTool'', JStr ''createTask''),
                       (''parameters'', JObj [(''description'', JStr ''buy milk'')]),
                       (''contextItemId'', JStr ''forged''),
                       (''actionIcon'', JStr ''star'')])
      else if s = odd_tool_reply_text
      then Some (JObj [(''tool'', JObj [(''toString'', JNum (Fin 1))]),
                       (''toolParams'', JObj [(''a'', JNum (Fin 1))])])
      else None)"

definition sample_add :: "jsnum \<Rightarrow> jsnum \<Rightarrow> jsnum" where
  "sample_add x y = (if x = Fin 0 then y else if y = Fin 0 then x else NaN)"

definition sample_env :: env where
  "sample_env =
     \<lparr>uuidv4 = (\<lambda>k. Inr (''a1b2c3d4-e5f6-4789-a012-b3c4d5e6f78'' @ [hex_digit k])),
      randomBytes = (\<lambda>k. Inr (replicate 16 0)),
      mathRandom = (\<lambda>k j. 0),
      now = ''2024-01-15T10:30:00.000Z'',
      dateValid = (\<lambda>v. v = JStr ''2024-01-15T10:30:00.000Z''),
      JSON_parse = sample_parse,
      numberToString = (\<lambda>x. ''0''),
      numberAdd = sample_add,
      stackTrace = (\<lambda>err. ''Error: '' @ message err),
      development = False,
      buildBasicPrompt = (\<lambda>b. Inr ''You are Reva''),
      post = (\<lambda>p c. Inl \<lparr>err_message = ''connect ECONNREFUSED'', err_code = Some ''ECONNREFUSED'',
                           response_status = None\<rparr>)\<rparr>"

text \<open>The library returns a malformed value, so the generator falls back to \<open>crypto\<close>.\<close>

definition fallback_env :: env where
  "fallback_env = sample_env\<lparr>uuidv4 := (\<lambda>k. Inr ''not-a-uuid'')\<rparr>"

text \<open>All three sources fail: the two libraries throw, and \<open>Math.random\<close> is out of range.\<close>

definition exhausted_env :: env where
  "exhausted_env =
     sample_env\<lparr>uuidv4 := (\<lambda>k. Inl ''uuid library unavailable''),
                 randomBytes := (\<lambda>k. Inl ''entropy source unavailable''),
                 mathRandom := (\<lambda>k j. 16)\<rparr>"

definition coffee_params :: jsval where
  "coffee_params =
     JObj [(''expenses'',
        JArr [JObj [(''item'', JStr ''Coffee''), (''amount'', JNum (Fin (11 / 2))),
                    (''category'', JStr ''Food''), (''date'', JStr ''2024-01-15'')]])]"

definition mixed_batch_params :: jsval where
  "mixed_batch_params =
     JObj [(''expenses'',
        JArr [JObj [(''item'', JStr ''Coffee''), (''amount'', JNum (Fin (11 / 2)))],
              JObj [(''item'', JStr ''Refund''), (''amount'', JNum (Fin (- 3)))]])]"

text \<open>The characters the two fallback tiers can print.\<close>

definition lowerHexDash :: "char set" where
  "lowerHexDash = set ''0123456789abcdef-''"

text \<open>Each merged field of a fragment is absent or truthy.\<close>

definition fields_truthy :: "jsval \<Rightarrow> bool" where
  "fields_truthy r = (\<forall>f\<in>set merged_fields. js_get r f = JUndefined \<or> truthy (js_get r f))"

section \<open>Identifier generator: properties\<close>

lemma uuidPattern_length: "length uuidPattern = 36"
  by (simp add: uuidPattern_def)

lemma uuidRegex_positions:
  assumes "uuidRegex_test u"
  shows "length u = 36" and "u ! 8 = CHR ''-''" and "u ! 13 = CHR ''-''" and "u ! 18 = CHR ''-''"
    and "u ! 23 = CHR ''-''" and "u ! 14 = CHR ''4''" and "is_variant (u ! 19)"
proof -
  from assms have len: "length u = 36" and nth: "\<And>i. i < 36 \<Longrightarrow> (uuidPattern ! i) (u ! i)"
    by (auto simp: uuidRegex_test_def list_all2_conv_all_nth uuidPattern_length)
  show "length u = 36" by (rule len)
  from nth [of 8] show "u ! 8 = CHR ''-''" by (simp add: uuidPattern_def nth_append is_char_def)
  from nth [of 13] show "u ! 13 = CHR ''-''" by (simp add: uuidPattern_def nth_append is_char_def)
  from nth [of 18] show "u ! 18 = CHR ''-''" by (simp add: uuidPattern_def nth_append is_char_def)
  from nth [of 23] show "u ! 23 = CHR ''-''" by (simp add: uuidPattern_def nth_append is_char_def)
  from nth [of 14] show "u ! 14 = CHR ''4''" by (simp add: uuidPattern_def nth_append is_char_def)
  from nth [of 19] show "is_variant (u ! 19)" by (simp add: uuidPattern_def nth_append)
qed

lemma hex_digit_lower: "hex_digit n \<in> lowerHexDash"
proof -
  have "hex_digit n \<in> set ''0123456789abcdef''"
    unfolding hex_digit_def by (rule nth_mem) simp
  moreover have "set ''0123456789abcdef'' \<subseteq> lowerHexDash"
    unfolding lowerHexDash_def by (simp add: subset_insertI2)
  ultimately show ?thesis by (rule rev_subsetD)
qed

lemma dash_lower: "CHR ''-'' \<in> lowerHexDash"
  by (simp add: lowerHexDash_def)

lemma four_lower: "CHR ''4'' \<in> lowerHexDash"
  by (simp add: lowerHexDash_def)

lemma hex_of_nat_lower: "set (hex_of_nat n) \<subseteq> lowerHexDash"
proof (induction n rule: hex_of_nat.induct)
  case (1 n)
  show ?case
  proof (cases "n < 16")
    case True
    then show ?thesis using hex_digit_lower [of n] by (subst hex_of_nat.simps) simp
  next
    case False
    then show ?thesis using 1 hex_digit_lower [of "n mod 16"] by (subst hex_of_nat.simps) simp
  qed
qed

lemma toString16_lower: "set (toString16 i) \<subseteq> lowerHexDash"
proof (cases "i < 0")
  case True
  then show ?thesis using hex_of_nat_lower [of "nat (- i)"] dash_lower
    by (simp add: toString16_def)
next
  case False
  then show ?thesis using hex_of_nat_lower [of "nat i"]
    by (simp add: toString16_def)
qed

lemma replace_xy_lower:
  "set cs \<subseteq> {CHR ''x'', CHR ''y'', CHR ''-'', CHR ''4''} \<Longrightarrow> set (replace_xy rnd j cs) \<subseteq> lowerHexDash"
proof (induction cs arbitrary: j)
  case Nil
  then show ?case by simp
next
  case (Cons c cs)
  then have ih: "\<And>j. set (replace_xy rnd j cs) \<subseteq> lowerHexDash" by simp
  from Cons.prems have c: "c = CHR ''x'' \<or> c = CHR ''y'' \<or> c = CHR ''-'' \<or> c = CHR ''4''" by simp
  show ?case
  proof (cases "c = CHR ''x'' \<or> c = CHR ''y''")
    case True
    then show ?thesis
      using ih [of "Suc j"] toString16_lower [of "rnd j"] toString16_lower [of "(rnd j AND 3) OR 8"]
      by (simp add: Let_def)
  next
    case False
    with c have "c \<in> lowerHexDash" using dash_lower four_lower by blast
    with False show ?thesis using ih [of j] by simp
  qed
qed

lemma math_uuid_lower: "set (math_uuid rnd) \<subseteq> lowerHexDash"
  unfolding math_uuid_def by (rule replace_xy_lower) simp

lemma byte_hex_lower: "set (byte_hex b) \<subseteq> lowerHexDash"
  using hex_digit_lower [of "unat b div 16"] hex_digit_lower [of "unat b mod 16"]
  by (simp add: byte_hex_def)

lemma substring_subset: "set (substring s a b) \<subseteq> set s"
  unfolding substring_def by (meson set_take_subset set_drop_subset subset_trans)

lemma concat_hex_lower: "set (concat (map byte_hex xs)) \<subseteq> lowerHexDash"
  using byte_hex_lower by (induction xs) simp_all

lemma join_groups_lower:
  assumes "set hex \<subseteq> lowerHexDash"
  shows "set (join_groups hex) \<subseteq> lowerHexDash"
proof -
  have s: "set (substring hex a b) \<subseteq> lowerHexDash" for a b
    using substring_subset [of hex a b] assms by (rule subset_trans)
  have d: "set ''-'' \<subseteq> lowerHexDash" using dash_lower by simp
  show ?thesis
    unfolding join_groups_def set_append
    by (intro Un_least s d)
qed

lemma crypto_uuid_lower: "set (crypto_uuid bs) \<subseteq> lowerHexDash"
  unfolding crypto_uuid_def Let_def by (rule join_groups_lower) (rule concat_hex_lower)

lemma variant_lower:
  assumes "is_variant c" and "c \<in> lowerHexDash"
  shows "c \<in> {CHR ''8'', CHR ''9'', CHR ''a'', CHR ''b''}"
proof -
  have "CHR ''A'' \<notin> lowerHexDash" "CHR ''B'' \<notin> lowerHexDash"
    by (simp_all add: lowerHexDash_def)
  with assms show ?thesis by (auto simp: is_variant_def)
qed

lemma generateFallbackUUID_valid:
  assumes "generateFallbackUUID e k = Inr u"
  shows "uuidRegex_test u \<and> set u \<subseteq> lowerHexDash"
  using assms crypto_uuid_lower math_uuid_lower
  by (auto simp: generateFallbackUUID_def tier_crypto_def tier_math_def Let_def
      split: sum.splits if_splits)

lemma generateFallbackUUID_variant:
  assumes "generateFallbackUUID e k = Inr u"
  shows "u ! 19 \<in> {CHR ''8'', CHR ''9'', CHR ''a'', CHR ''b''}"
proof -
  from generateFallbackUUID_valid [OF assms]
  have v: "uuidRegex_test u" and l: "set u \<subseteq> lowerHexDash" by simp_all
  from uuidRegex_positions(1) [OF v] have "u ! 19 \<in> set u" by simp
  with l have "u ! 19 \<in> lowerHexDash" by blast
  with uuidRegex_positions(7) [OF v] show ?thesis by (rule variant_lower)
qed

lemma tier_library_Inr: "tier_library e k = Inr u \<longleftrightarrow> uuidv4 e k = Inr u \<and> uuidRegex_test u"
  by (auto simp: tier_library_def split: sum.splits)

lemma generateUUID_Inr:
  "generateUUID e k = Inr u \<longleftrightarrow>
     tier_library e k = Inr u \<or> ((\<exists>err. tier_library e k = Inl err) \<and> generateFallbackUUID e k = Inr u)"
  by (auto simp: generateUUID_def split: sum.splits)

lemma generateFallbackUUID_Inr:
  "generateFallbackUUID e k = Inr u \<longleftrightarrow>
     tier_crypto e k = Inr u \<or> ((\<exists>err. tier_crypto e k = Inl err) \<and> tier_math e k = Inr u)"
  by (auto simp: generateFallbackUUID_def split: sum.splits)

lemma generateUUID_valid:
  assumes "generateUUID e k = Inr u"
  shows "uuidRegex_test u"
  using assms generateFallbackUUID_valid [of e k u]
  by (auto simp: generateUUID_Inr tier_library_Inr)

text \<open>
  Claim C4. Every identifier that \<open>generateUUID\<close> returns, from whichever tier,
  passes the format validator and has the canonical shape: 36 characters, hyphens
  at positions 8, 13, 18 and 23, version nibble \<open>4\<close>, and a variant nibble among
  8, 9, a, b (the validator is case-insensitive, so the library tier may spell a
  and b in upper case; the two fallback tiers print lower case). A library value
  that passes is returned as it is; one that fails (or a library that throws) is
  never returned: the result is then the fallback's, and when the \<open>crypto\<close> value
  fails too, it is the \<open>Math.random\<close> construction.
\<close>

theorem generateUUID_returns_canonical:
  assumes "generateUUID e k = Inr u"
  shows "isValidUUID (JStr u)
       \<and> length u = 36
       \<and> u ! 8 = CHR ''-'' \<and> u ! 13 = CHR ''-'' \<and> u ! 18 = CHR ''-'' \<and> u ! 23 = CHR ''-''
       \<and> u ! 14 = CHR ''4''
       \<and> u ! 19 \<in> {CHR ''8'', CHR ''9'', CHR ''a'', CHR ''b'', CHR ''A'', CHR ''B''}
       \<and> (\<forall>s. uuidv4 e k = Inr s \<and> uuidRegex_test s \<longrightarrow> u = s)
       \<and> ((\<forall>s. uuidv4 e k = Inr s \<longrightarrow> \<not> uuidRegex_test s) \<longrightarrow>
            generateFallbackUUID e k = Inr u
            \<and> u ! 19 \<in> {CHR ''8'', CHR ''9'', CHR ''a'', CHR ''b''})
       \<and> ((\<forall>s. uuidv4 e k = Inr s \<longrightarrow> \<not> uuidRegex_test s)
            \<and> (\<forall>bs. randomBytes e k = Inr bs \<longrightarrow> \<not> uuidRegex_test (crypto_uuid bs)) \<longrightarrow>
            u = math_uuid (mathRandom e k))"
proof -
  have v: "uuidRegex_test u" using assms by (rule generateUUID_valid)
  have a: "isValidUUID (JStr u)" using v by simp
  note p = uuidRegex_positions [OF v]
  have var: "u ! 19 \<in> {CHR ''8'', CHR ''9'', CHR ''a'', CHR ''b'', CHR ''A'', CHR ''B''}"
    using p(7) by (auto simp: is_variant_def)
  have t1: "\<forall>s. uuidv4 e k = Inr s \<and> uuidRegex_test s \<longrightarrow> u = s"
    using assms by (auto simp: generateUUID_def tier_library_def split: sum.splits)
  have fb: "generateFallbackUUID e k = Inr u" if "\<forall>s. uuidv4 e k = Inr s \<longrightarrow> \<not> uuidRegex_test s"
    using assms that by (auto simp: generateUUID_Inr tier_library_Inr)
  have t2: "(\<forall>s. uuidv4 e k = Inr s \<longrightarrow> \<not> uuidRegex_test s) \<longrightarrow>
            generateFallbackUUID e k = Inr u \<and> u ! 19 \<in> {CHR ''8'', CHR ''9'', CHR ''a'', CHR ''b''}"
    using fb generateFallbackUUID_variant by blast
  have t3: "(\<forall>s. uuidv4 e k = Inr s \<longrightarrow> \<not> uuidRegex_test s)
            \<and> (\<forall>bs. randomBytes e k = Inr bs \<longrightarrow> \<not> uuidRegex_test (crypto_uuid bs)) \<longrightarrow>
            u = math_uuid (mathRandom e k)"
  proof (intro impI, elim conjE)
    assume 1: "\<forall>s. uuidv4 e k = Inr s \<longrightarrow> \<not> uuidRegex_test s"
      and 2: "\<forall>bs. randomBytes e k = Inr bs \<longrightarrow> \<not> uuidRegex_test (crypto_uuid bs)"
    from fb [OF 1] 2 show "u = math_uuid (mathRandom e k)"
      by (auto simp: generateFallbackUUID_def tier_crypto_def tier_math_def Let_def
          split: sum.splits if_splits)
  qed
  from a p(1-6) var t1 t2 t3 show ?thesis by blast
qed

theorem generateUUID_returns_canonical_witness:
  "generateUUID fallback_env 0 = Inr ''00000000-0000-4000-8000-000000000000''
   \<and> isValidUUID (JStr ''00000000-0000-4000-8000-000000000000'')
   \<and> generateFallbackUUID fallback_env 0 = Inr ''00000000-0000-4000-8000-000000000000''"
proof -
  have h: "generateUUID fallback_env 0 = Inr ''00000000-0000-4000-8000-000000000000''"
    by code_simp
  have bad: "\<not> uuidRegex_test ''not-a-uuid''"
    by code_simp
  have n: "\<forall>s. uuidv4 fallback_env 0 = Inr s \<longrightarrow> \<not> uuidRegex_test s"
    using bad by (simp add: fallback_env_def sample_env_def)
  from generateUUID_returns_canonical [OF h] n h show ?thesis by blast
qed

lemma isRetryable_code:
  "code err = Some ''UUID_GENERATION_FAILURE'' \<Longrightarrow> isRetryableError err"
  by (simp add: isRetryableError_def retryableCodes_def)

text \<open>
  Claim C5, as amended. \<open>generateUUID\<close> fails only when all three tiers have
  failed. The failure has code \<open>UUID_GENERATION_FAILURE\<close>, carries the message
  of the first tier's error as \<open>primaryError\<close>, the fixed message of the fallback
  chain's own error as \<open>fallbackError\<close>, and a timestamp, and the classifier
  finds it retryable. It does not carry the messages of the second and third
  tiers: those are attached to the intermediate \<open>FALLBACK_UUID_FAILURE\<close> error
  of \<open>generateFallbackUUID\<close> only (as its \<open>cryptoError\<close> and \<open>mathError\<close>).
\<close>

theorem generateUUID_failure:
  assumes "generateUUID e k = Inl err"
  shows "(\<exists>e1 e2 e3 fe. tier_library e k = Inl e1 \<and> tier_crypto e k = Inl e2 \<and> tier_math e k = Inl e3
            \<and> primaryError err = Some (message e1)
            \<and> generateFallbackUUID e k = Inl fe \<and> code fe = Some ''FALLBACK_UUID_FAILURE''
            \<and> cryptoError fe = Some (message e2) \<and> mathError fe = Some (message e3))
       \<and> code err = Some ''UUID_GENERATION_FAILURE''
       \<and> fallbackError err = Some ''All UUID fallback methods failed''
       \<and> cryptoError err = None \<and> mathError err = None
       \<and> timestamp err = Some (now e)
       \<and> isRetryableError err"
proof -
  from assms obtain e1 fe where 1: "tier_library e k = Inl e1"
    and f: "generateFallbackUUID e k = Inl fe"
    and err: "err = (coded_Error ''UUID generation system failure'' ''UUID_GENERATION_FAILURE'')
                \<lparr>primaryError := Some (message e1), fallbackError := Some (message fe),
                 timestamp := Some (now e)\<rparr>"
    by (auto simp: generateUUID_def split: sum.splits)
  from f obtain e2 e3 where 2: "tier_crypto e k = Inl e2" and 3: "tier_math e k = Inl e3"
    and fe: "message fe = ''All UUID fallback methods failed''"
    and fc: "code fe = Some ''FALLBACK_UUID_FAILURE''"
    and f2: "cryptoError fe = Some (message e2)" and f3: "mathError fe = Some (message e3)"
    by (auto simp: generateFallbackUUID_def coded_Error_def new_Error_def split: sum.splits)
  have c: "code err = Some ''UUID_GENERATION_FAILURE''"
    by (simp add: err coded_Error_def new_Error_def)
  have r: "isRetryableError err" using c by (rule isRetryable_code)
  have p: "primaryError err = Some (message e1)"
    by (simp add: err coded_Error_def new_Error_def)
  have rest: "fallbackError err = Some ''All UUID fallback methods failed''"
    "cryptoError err = None" "mathError err = None" "timestamp err = Some (now e)"
    by (simp_all add: err fe coded_Error_def new_Error_def)
  from 1 2 3 p f fc f2 f3 c rest r show ?thesis by blast
qed

theorem generateUUID_failure_witness:
  "generateUUID exhausted_env 0 \<noteq> Inr [] \<and> (\<exists>err. generateUUID exhausted_env 0 = Inl err \<and> isRetryableError err
     \<and> fallbackError err = Some ''All UUID fallback methods failed'')"
proof -
  obtain err where h: "generateUUID exhausted_env 0 = Inl err"
    by (cases "generateUUID exhausted_env 0") (simp_all add: generateUUID_def tier_library_def
        exhausted_env_def sample_env_def generateFallbackUUID_def tier_crypto_def split: sum.splits, code_simp)
  from generateUUID_failure [OF h] h show ?thesis by simp
qed

text \<open>
  Claim C5 as stated fails: with all three sources failing, the error handed to
  the caller holds neither the second tier's message nor the third's.
\<close>

theorem generateUUID_failure_omits_tier_messages:
  "tier_crypto exhausted_env 0 = Inl (new_Error ''entropy source unavailable'')
   \<and> tier_math exhausted_env 0 = Inl (new_Error
        ''Math.random fallback generated invalid UUID: 1010101010101010-10101010-4101010-8101010-101010101010101010101010'')
   \<and> generateUUID exhausted_env 0 =
       Inl \<lparr>message = ''UUID generation system failure'', code = Some ''UUID_GENERATION_FAILURE'',
            generatedValue = None, primaryError = Some ''uuid library unavailable'',
            fallbackError = Some ''All UUID fallback methods failed'', cryptoError = None,
            mathError = None, timestamp = Some ''2024-01-15T10:30:00.000Z'', tool = None, params = None\<rparr>"
  by code_simp

text \<open>
  When every draw of \<open>Math.random() * 16 | 0\<close> lies in \<open>0..15\<close>, the third tier
  passes validation, so the generator returns an identifier whatever the first
  two tiers do: it can fail only with a \<open>Math.random\<close> that leaves \<open>[0, 1)\<close>.
\<close>

lemma hex_digit_is_hex: "is_hex (hex_digit n)"
proof -
  have "hex_digit n \<in> set ''0123456789abcdef''"
    unfolding hex_digit_def by (rule nth_mem) simp
  then show ?thesis unfolding is_hex_def by auto
qed

lemma toString16_digit:
  assumes "0 \<le> r" and "r < 16"
  shows "toString16 r = [hex_digit (nat r)]"
  using assms by (simp add: toString16_def hex_of_nat.simps)

lemma variant_digit:
  assumes "0 \<le> r" and "r < (16::int)"
  shows "toString16 ((r AND 3) OR 8) = [hex_digit (nat ((r AND 3) OR 8))] \<and> is_variant (hex_digit (nat ((r AND 3) OR 8)))"
proof -
  have "0 \<le> r AND 3" using assms(1) by simp
  moreover have "r AND 3 \<le> 3" by (rule AND_upper2) simp
  ultimately consider "r AND 3 = 0" | "r AND 3 = 1" | "r AND 3 = 2" | "r AND 3 = 3" by linarith
  then show ?thesis
    by cases (simp_all add: toString16_def hex_of_nat.simps hex_digit_def is_variant_def)
qed

lemma math_uuid_in_range_valid:
  assumes "\<forall>j<31. 0 \<le> rnd j \<and> rnd j < 16"
  shows "uuidRegex_test (math_uuid rnd)"
proof -
  have x: "toString16 (rnd j) = [hex_digit (nat (rnd j))]" if "j < 31" for j
    using assms that by (simp add: toString16_digit)
  have y: "toString16 ((rnd j AND 3) OR 8) = [hex_digit (nat ((rnd j AND 3) OR 8))]" if "j < 31" for j
    using variant_digit [of "rnd j"] assms that by simp
  have z: "is_variant (hex_digit (nat ((rnd j AND 3) OR 8)))" if "j < 31" for j
    using variant_digit [of "rnd j"] assms that by simp
  show ?thesis
    unfolding math_uuid_def uuidRegex_test_def uuidPattern_def
    by (simp add: x y z hex_digit_is_hex is_char_def numeral_eq_Suc Let_def)
qed


lemma generateUUID_succeeds_in_range:
  assumes "\<forall>j<31. 0 \<le> mathRandom e k j \<and> mathRandom e k j < 16"
  shows "\<exists>u. generateUUID e k = Inr u"
proof -
  have "tier_math e k = Inr (math_uuid (mathRandom e k))"
    using math_uuid_in_range_valid [OF assms] by (simp add: tier_math_def)
  then show ?thesis
    by (auto simp: generateUUID_def generateFallbackUUID_def split: sum.splits)
qed

section \<open>Update tools: properties\<close>

lemma uuidRegex_length: "uuidRegex_test s \<Longrightarrow> length s = 36"
  by (auto simp: uuidRegex_test_def uuidPattern_def dest: list_all2_lengthD)

lemma isValidUUID_string: "isValidUUID v \<Longrightarrow> truthy v \<and> typeof v = ''string''"
  by (cases v) (auto dest: uuidRegex_length)

lemma code_rethrow: "code (err\<lparr>tool := t, params := p\<rparr>) = code err"
  by simp

lemma run_tool_updateTask: "run_tool e n (JStr ''updateTask'') ps = (executeUpdateTask ps, n)"
  by (simp add: run_tool_def)

lemma executeUpdateTask_bad_format:
  assumes "\<not> nullish ps" and "truthy (js_or (js_get ps ''taskId'') (js_get ps ''id''))"
    and "typeof (js_or (js_get ps ''taskId'') (js_get ps ''id'')) = ''string''"
    and "\<not> isValidUUID (js_or (js_get ps ''taskId'') (js_get ps ''id''))"
  shows "executeUpdateTask ps =
     Inl ((coded_Error ''Invalid task ID format'' ''INVALID_TASK_ID_FORMAT'')\<lparr>tool := Some ''updateTask'', params := Some ps\<rparr>)"
  using assms by (simp add: executeUpdateTask_def Let_def rethrow_with_def)

lemma executeUpdateTask_missing:
  assumes "\<not> nullish ps" and "\<not> truthy (js_or (js_get ps ''taskId'') (js_get ps ''id''))
     \<or> typeof (js_or (js_get ps ''taskId'') (js_get ps ''id'')) \<noteq> ''string''"
  shows "executeUpdateTask ps =
     Inl ((coded_Error ''Task ID is required for updates'' ''MISSING_TASK_ID'')\<lparr>tool := Some ''updateTask'', params := Some ps\<rparr>)"
  using assms by (simp add: executeUpdateTask_def Let_def rethrow_with_def)


lemma truthy_get_obj: "truthy (js_get ps k) \<Longrightarrow> \<exists>kvs. ps = JObj kvs"
  by (cases ps) simp_all

lemma template_of_string: "template_of e (JStr s) = Inr s"
  by (simp add: template_of_def)

lemma createToolErrorResponse_string:
  "createToolErrorResponse e (JStr s) err ps = Inr (errorResponse e (JStr s) err ps)"
  by (simp add: createToolErrorResponse_def template_of_string)

lemma executeToolIfNeeded_named:
  assumes "s \<noteq> []" and "truthy ps"
  shows "executeToolIfNeeded e n (JObj [(''tool'', JStr s), (''toolParams'', ps)]) =
     (case run_tool e n (JStr s) ps of
        (Inr result, n') \<Rightarrow> (Inr result, n')
      | (Inl err, n') \<Rightarrow> (Inr (JObj [(''errorDetails'', errorResponse e (JStr s) err ps)]), n'))"
  using assms
  by (simp add: executeToolIfNeeded_def js_or_def template_of_string createToolErrorResponse_string
      split: prod.splits sum.splits)

lemma errorCode_of_response:
  "js_get (js_get (errorResponse e t err ps) ''technicalDetails'') ''errorCode'' =
     JStr (case code err of Some c \<Rightarrow> c | None \<Rightarrow> ''UNKNOWN_ERROR'')"
  by (simp add: errorResponse_def)

text \<open>
  Claim C8, as amended. Whatever else the parameters hold (any \<open>updates\<close>, or
  none), \<open>updateTask\<close> with a \<open>taskId\<close> that is a non-empty string and fails
  the format validator fails with \<open>INVALID_TASK_ID_FORMAT\<close>; the dispatcher turns
  the failure into an \<open>errorDetails\<close> fragment with that error code, and the number
  of identifiers minted stays as it was.
\<close>

theorem executeUpdateTask_malformed_id:
  assumes "js_get ps ''taskId'' = JStr s" and "s \<noteq> []" and "\<not> uuidRegex_test s"
  shows "\<exists>err. executeUpdateTask ps = Inl err
           \<and> code err = Some ''INVALID_TASK_ID_FORMAT''
           \<and> run_tool e n (JStr ''updateTask'') ps = (Inl err, n)
           \<and> createToolErrorResponse e (JStr ''updateTask'') err ps
               = Inr (errorResponse e (JStr ''updateTask'') err ps)
           \<and> executeToolIfNeeded e n (JObj [(''tool'', JStr ''updateTask''), (''toolParams'', ps)]) =
               (Inr (JObj [(''errorDetails'', errorResponse e (JStr ''updateTask'') err ps)]), n)
           \<and> js_get (js_get (errorResponse e (JStr ''updateTask'') err ps) ''technicalDetails'') ''errorCode''
               = JStr ''INVALID_TASK_ID_FORMAT''"
proof -
  let ?err = "(coded_Error ''Invalid task ID format'' ''INVALID_TASK_ID_FORMAT'')
                \<lparr>tool := Some ''updateTask'', params := Some ps\<rparr>"
  from assms(1,2) have t: "truthy (js_get ps ''taskId'')" by simp
  then obtain kvs where ps: "ps = JObj kvs" using truthy_get_obj by blast
  have nn: "\<not> nullish ps" and tp: "truthy ps" using ps by simp_all
  have x: "executeUpdateTask ps = Inl ?err"
    by (rule executeUpdateTask_bad_format) (simp_all add: js_or_def assms nn)
  have c: "code ?err = Some ''INVALID_TASK_ID_FORMAT''"
    by (simp add: coded_Error_def)
  have r: "run_tool e n (JStr ''updateTask'') ps = (Inl ?err, n)"
    by (simp add: run_tool_updateTask x)
  have cr: "createToolErrorResponse e (JStr ''updateTask'') ?err ps
               = Inr (errorResponse e (JStr ''updateTask'') ?err ps)"
    by (rule createToolErrorResponse_string)
  have d: "executeToolIfNeeded e n (JObj [(''tool'', JStr ''updateTask''), (''toolParams'', ps)]) =
        (Inr (JObj [(''errorDetails'', errorResponse e (JStr ''updateTask'') ?err ps)]), n)"
    by (subst executeToolIfNeeded_named) (simp_all add: tp r)
  have ec: "js_get (js_get (errorResponse e (JStr ''updateTask'') ?err ps) ''technicalDetails'') ''errorCode''
               = JStr ''INVALID_TASK_ID_FORMAT''"
    by (simp only: errorCode_of_response c option.case)
  from x c r cr d ec show ?thesis by blast
qed

theorem executeUpdateTask_malformed_id_witness:
  "\<exists>err. executeUpdateTask (JObj [(''taskId'', JStr ''not-a-uuid''), (''updates'', JObj [(''title'', JStr ''x'')])]) = Inl err
     \<and> code err = Some ''INVALID_TASK_ID_FORMAT''"
proof -
  let ?ps = "JObj [(''taskId'', JStr ''not-a-uuid''), (''updates'', JObj [(''title'', JStr ''x'')])]"
  have g: "js_get ?ps ''taskId'' = JStr ''not-a-uuid''" by simp
  have ne: "''not-a-uuid'' \<noteq> []" by simp
  have bad: "\<not> uuidRegex_test ''not-a-uuid''" by code_simp
  from executeUpdateTask_malformed_id [OF g ne bad, of sample_env 0] show ?thesis by blast
qed

text \<open>
  Claim C8 as stated fails: the empty string fails the format validator, and
  \<open>updateTask\<close> answers \<open>MISSING_TASK_ID\<close>, by the guard that precedes the
  format check.
\<close>

theorem executeUpdateTask_empty_id_is_missing:
  "\<not> isValidUUID (JStr [])
   \<and> executeUpdateTask (JObj [(''taskId'', JStr []), (''updates'', JObj [])]) =
       Inl \<lparr>message = ''Task ID is required for updates'', code = Some ''MISSING_TASK_ID'',
            generatedValue = None, primaryError = None, fallbackError = None, cryptoError = None,
            mathError = None, timestamp = None, tool = Some ''updateTask'',
            params = Some (JObj [(''taskId'', JStr []), (''updates'', JObj [])])\<rparr>"
  by code_simp

lemma valid_id_obj:
  assumes "isValidUUID (js_or (js_get ps a) (js_get ps b))"
  shows "\<exists>kvs. ps = JObj kvs"
proof -
  from isValidUUID_string [OF assms] have "truthy (js_get ps a) \<or> truthy (js_get ps b)"
    by (auto simp: js_or_def split: if_splits)
  then show ?thesis using truthy_get_obj by blast
qed

lemma updates_payload:
  assumes "ps = JObj kvs"
  shows "truthy (js_or (js_get ps ''updates'') ps)"
    and "typeof (js_or (js_get ps ''updates'') ps) \<noteq> ''object'' \<longleftrightarrow>
           truthy (js_get ps ''updates'') \<and> typeof (js_get ps ''updates'') \<noteq> ''object''"
    and "\<not> truthy (js_get ps ''updates'') \<Longrightarrow> js_or (js_get ps ''updates'') ps = ps"
  unfolding assms js_or_def by (simp_all del: js_get.simps)

lemma code_coded: "code ((coded_Error m c)\<lparr>tool := t, params := p\<rparr>) = Some c"
  by (simp add: coded_Error_def)

lemma executeUpdateTask_missing_update_iff:
  "(\<exists>err. executeUpdateTask ps = Inl err \<and> code err = Some ''MISSING_UPDATE_DATA'') \<longleftrightarrow>
     isValidUUID (js_or (js_get ps ''taskId'') (js_get ps ''id''))
     \<and> truthy (js_get ps ''updates'') \<and> typeof (js_get ps ''updates'') \<noteq> ''object''"
proof (cases "isValidUUID (js_or (js_get ps ''taskId'') (js_get ps ''id''))")
  case True
  then obtain kvs where ps: "ps = JObj kvs" using valid_id_obj by blast
  then have nn: "\<not> nullish ps" by simp
  note s = isValidUUID_string [OF True]
  show ?thesis
    using True s nn updates_payload(1,2) [OF ps]
    by (simp add: executeUpdateTask_def Let_def rethrow_with_def code_coded del: js_get.simps)
next
  case False
  then show ?thesis
    by (simp add: executeUpdateTask_def Let_def rethrow_with_def code_coded read_TypeError_def new_Error_def
        del: js_get.simps)
qed

lemma executeUpdateTask_no_updates:
  assumes "isValidUUID (js_or (js_get ps ''taskId'') (js_get ps ''id''))"
    and "\<not> truthy (js_get ps ''updates'')"
  shows "executeUpdateTask ps = Inr (JObj
           [(''actionMetadata'',
               JObj [(''tool'', JStr ''updateTask''),
                     (''task_id'', js_or (js_get ps ''taskId'') (js_get ps ''id'')),
                     (''updates'', ps)]),
            (''contextItemId'', js_or (js_get ps ''taskId'') (js_get ps ''id'')),
            (''contextItemType'', JStr ''task''),
            (''updatedItemType'', JStr ''task''),
            (''actionIcon'', JStr ''edit'')])"
proof -
  from assms(1) obtain kvs where ps: "ps = JObj kvs" using valid_id_obj by blast
  then have nn: "\<not> nullish ps" by simp
  note s = isValidUUID_string [OF assms(1)]
  show ?thesis
    using assms s nn updates_payload(1,2) [OF ps] updates_payload(3) [OF ps assms(2)]
    by (simp add: executeUpdateTask_def Let_def rethrow_with_def del: js_get.simps)
qed


lemma date_is_NaN_code: "date_is_NaN e v = Inl terr \<Longrightarrow> code terr = None"
  by (auto simp: date_is_NaN_def new_Error_def split: option.splits)

lemma executeUpdateReminder_valid_id:
  assumes "isValidUUID (js_or (js_get ps ''reminderId'') (js_get ps ''id''))"
  shows "executeUpdateReminder e ps =
     rethrow_with ''updateReminder'' ps
       (let updates = js_or (js_get ps ''updates'') ps
        in if typeof updates \<noteq> ''object''
           then Inl (coded_Error ''Update data is required'' ''MISSING_UPDATE_DATA'')
           else
             (case (if truthy (js_get updates ''scheduledTime'')
                    then date_is_NaN e (js_get updates ''scheduledTime'')
                    else Inr False) of
                Inl err \<Rightarrow> Inl err
              | Inr True \<Rightarrow>
                  Inl (coded_Error ''Invalid scheduled time format in updates'' ''INVALID_SCHEDULED_TIME'')
              | Inr False \<Rightarrow> Inr (JObj
                  [(''actionMetadata'',
                      JObj [(''tool'', JStr ''updateReminder''),
                            (''reminder_id'', js_or (js_get ps ''reminderId'') (js_get ps ''id'')),
                            (''updates'', updates)]),
                   (''contextItemId'', js_or (js_get ps ''reminderId'') (js_get ps ''id'')),
                   (''contextItemType'', JStr ''reminder''),
                   (''updatedItemType'', JStr ''reminder''),
                   (''actionIcon'', JStr ''edit'')])))"
proof -
  from assms obtain kvs where ps: "ps = JObj kvs" using valid_id_obj by blast
  then have nn: "\<not> nullish ps" by simp
  note s = isValidUUID_string [OF assms]
  show ?thesis
    using assms s nn updates_payload(1) [OF ps]
    by (simp add: executeUpdateReminder_def Let_def del: js_get.simps)
qed

lemma executeUpdateReminder_missing_update_iff:
  "(\<exists>err. executeUpdateReminder e ps = Inl err \<and> code err = Some ''MISSING_UPDATE_DATA'') \<longleftrightarrow>
     isValidUUID (js_or (js_get ps ''reminderId'') (js_get ps ''id''))
     \<and> truthy (js_get ps ''updates'') \<and> typeof (js_get ps ''updates'') \<noteq> ''object''"
proof (cases "isValidUUID (js_or (js_get ps ''reminderId'') (js_get ps ''id''))")
  case True
  then obtain kvs where ps: "ps = JObj kvs" using valid_id_obj by blast
  show ?thesis
  proof (cases "typeof (js_or (js_get ps ''updates'') ps) \<noteq> ''object''")
    case bad: True
    with True updates_payload(2) [OF ps] show ?thesis
      by (simp add: executeUpdateReminder_valid_id Let_def rethrow_with_def code_coded del: js_get.simps)
  next
    case ok: False
    have "code err \<noteq> Some ''MISSING_UPDATE_DATA''" if "executeUpdateReminder e ps = Inl err" for err
      using that ok True date_is_NaN_code [of e "js_get (js_or (js_get ps ''updates'') ps) ''scheduledTime''"]
      by (auto simp: executeUpdateReminder_valid_id Let_def rethrow_with_def code_coded
          split: sum.splits bool.splits if_splits simp del: js_get.simps)
    with ok True updates_payload(2) [OF ps] show ?thesis by auto
  qed
next
  case False
  then show ?thesis
    by (simp add: executeUpdateReminder_def Let_def rethrow_with_def code_coded read_TypeError_def new_Error_def
        del: js_get.simps)
qed

lemma executeUpdateReminder_no_updates:
  assumes "isValidUUID (js_or (js_get ps ''reminderId'') (js_get ps ''id''))"
    and "\<not> truthy (js_get ps ''updates'')"
  shows "executeUpdateReminder e ps =
     (case (if truthy (js_get ps ''scheduledTime'') then date_is_NaN e (js_get ps ''scheduledTime'')
            else Inr False) of
        Inl terr \<Rightarrow> Inl (terr\<lparr>tool := Some ''updateReminder'', params := Some ps\<rparr>)
      | Inr True \<Rightarrow>
          Inl ((coded_Error ''Invalid scheduled time format in updates'' ''INVALID_SCHEDULED_TIME'')
                  \<lparr>tool := Some ''updateReminder'', params := Some ps\<rparr>)
      | Inr False \<Rightarrow> Inr (JObj
           [(''actionMetadata'',
               JObj [(''tool'', JStr ''updateReminder''),
                     (''reminder_id'', js_or (js_get ps ''reminderId'') (js_get ps ''id'')),
                     (''updates'', ps)]),
            (''contextItemId'', js_or (js_get ps ''reminderId'') (js_get ps ''id'')),
            (''contextItemType'', JStr ''reminder''),
            (''updatedItemType'', JStr ''reminder''),
            (''actionIcon'', JStr ''edit'')]))"
proof -
  from assms(1) obtain kvs where ps: "ps = JObj kvs" using valid_id_obj by blast
  have u: "js_or (js_get ps ''updates'') ps = ps" by (rule updates_payload(3) [OF ps assms(2)])
  have o: "typeof ps = ''object''" by (simp add: ps)
  show ?thesis
    by (simp add: executeUpdateReminder_valid_id [OF assms(1)] Let_def u o rethrow_with_def
        split: sum.splits bool.splits del: js_get.simps)
qed

lemma executeUpdateGoal_missing_update_iff:
  "(\<exists>err. executeUpdateGoal ps = Inl err \<and> code err = Some ''MISSING_UPDATE_DATA'') \<longleftrightarrow>
     isValidUUID (js_or (js_get ps ''goalId'') (js_get ps ''id''))
     \<and> truthy (js_get ps ''updates'') \<and> typeof (js_get ps ''updates'') \<noteq> ''object''"
proof (cases "isValidUUID (js_or (js_get ps ''goalId'') (js_get ps ''id''))")
  case True
  then obtain kvs where ps: "ps = JObj kvs" using valid_id_obj by blast
  then have nn: "\<not> nullish ps" by simp
  note s = isValidUUID_string [OF True]
  show ?thesis
    using True s nn updates_payload(1,2) [OF ps]
    by (simp add: executeUpdateGoal_def Let_def rethrow_with_def code_coded del: js_get.simps)
next
  case False
  then show ?thesis
    by (simp add: executeUpdateGoal_def Let_def rethrow_with_def code_coded read_TypeError_def new_Error_def
        del: js_get.simps)
qed

lemma executeUpdateGoal_no_updates:
  assumes "isValidUUID (js_or (js_get ps ''goalId'') (js_get ps ''id''))"
    and "\<not> truthy (js_get ps ''updates'')"
  shows "executeUpdateGoal ps =
     (if js_get ps ''target'' \<noteq> JUndefined
         \<and> (typeof (js_get ps ''target'') \<noteq> ''number'' \<or> num_le_zero (the_num (js_get ps ''target'')))
      then Inl ((coded_Error ''Goal target must be a positive number'' ''INVALID_GOAL_TARGET'')
                  \<lparr>tool := Some ''updateGoal'', params := Some ps\<rparr>)
      else if js_get ps ''progress'' \<noteq> JUndefined
         \<and> (typeof (js_get ps ''progress'') \<noteq> ''number'' \<or> num_lt_zero (the_num (js_get ps ''progress'')))
      then Inl ((coded_Error ''Goal progress must be a non-negative number'' ''INVALID_GOAL_PROGRESS'')
                  \<lparr>tool := Some ''updateGoal'', params := Some ps\<rparr>)
      else Inr (JObj
           [(''actionMetadata'',
               JObj [(''tool'', JStr ''updateGoal''),
                     (''goal_id'', js_or (js_get ps ''goalId'') (js_get ps ''id'')),
                     (''updates'', ps)]),
            (''contextItemId'', js_or (js_get ps ''goalId'') (js_get ps ''id'')),
            (''contextItemType'', JStr ''goal''),
            (''updatedItemType'', JStr ''goal''),
            (''actionIcon'', JStr ''edit'')]))"
proof -
  from assms(1) obtain kvs where ps: "ps = JObj kvs" using valid_id_obj by blast
  then have nn: "\<not> nullish ps" by simp
  note s = isValidUUID_string [OF assms(1)]
  show ?thesis
    using assms s nn updates_payload(1,2) [OF ps] updates_payload(3) [OF ps assms(2)]
    by (simp add: executeUpdateGoal_def Let_def rethrow_with_def del: js_get.simps)
qed

text \<open>
  Claim C10, as amended. For each update variant, when the id passes the format
  validator and the parameters have no truthy \<open>updates\<close> property, the parameters
  themselves (id included) are the updates payload: \<open>updateTask\<close> succeeds, and
  \<open>updateReminder\<close> and \<open>updateGoal\<close> succeed unless their checks on
  \<open>scheduledTime\<close> (a value that \<open>new Date\<close> cannot convert, or an invalid
  date), \<open>target\<close> or \<open>progress\<close> of that object fail. The
  \<open>MISSING_UPDATE_DATA\<close> branch is reached exactly when the id is valid and
  \<open>updates\<close> is a truthy value that is not an object (a non-empty string, a
  non-zero number, \<open>true\<close>).
\<close>

theorem update_without_updates_field:
  "(\<not> truthy (js_get ps ''updates'') \<longrightarrow>
      (isValidUUID (js_or (js_get ps ''taskId'') (js_get ps ''id'')) \<longrightarrow>
         executeUpdateTask ps = Inr (JObj
           [(''actionMetadata'',
               JObj [(''tool'', JStr ''updateTask''),
                     (''task_id'', js_or (js_get ps ''taskId'') (js_get ps ''id'')),
                     (''updates'', ps)]),
            (''contextItemId'', js_or (js_get ps ''taskId'') (js_get ps ''id'')),
            (''contextItemType'', JStr ''task''),
            (''updatedItemType'', JStr ''task''),
            (''actionIcon'', JStr ''edit'')]))
    \<and> (isValidUUID (js_or (js_get ps ''reminderId'') (js_get ps ''id'')) \<longrightarrow>
         executeUpdateReminder e ps =
           (case (if truthy (js_get ps ''scheduledTime'') then date_is_NaN e (js_get ps ''scheduledTime'')
                  else Inr False) of
              Inl terr \<Rightarrow> Inl (terr\<lparr>tool := Some ''updateReminder'', params := Some ps\<rparr>)
            | Inr True \<Rightarrow>
                Inl ((coded_Error ''Invalid scheduled time format in updates'' ''INVALID_SCHEDULED_TIME'')
                        \<lparr>tool := Some ''updateReminder'', params := Some ps\<rparr>)
            | Inr False \<Rightarrow> Inr (JObj
              [(''actionMetadata'',
                  JObj [(''tool'', JStr ''updateReminder''),
                        (''reminder_id'', js_or (js_get ps ''reminderId'') (js_get ps ''id'')),
                        (''updates'', ps)]),
               (''contextItemId'', js_or (js_get ps ''reminderId'') (js_get ps ''id'')),
               (''contextItemType'', JStr ''reminder''),
               (''updatedItemType'', JStr ''reminder''),
               (''actionIcon'', JStr ''edit'')])))
    \<and> (isValidUUID (js_or (js_get ps ''goalId'') (js_get ps ''id'')) \<longrightarrow>
         executeUpdateGoal ps =
           (if js_get ps ''target'' \<noteq> JUndefined
               \<and> (typeof (js_get ps ''target'') \<noteq> ''number'' \<or> num_le_zero (the_num (js_get ps ''target'')))
            then Inl ((coded_Error ''Goal target must be a positive number'' ''INVALID_GOAL_TARGET'')
                        \<lparr>tool := Some ''updateGoal'', params := Some ps\<rparr>)
            else if js_get ps ''progress'' \<noteq> JUndefined
               \<and> (typeof (js_get ps ''progress'') \<noteq> ''number'' \<or> num_lt_zero (the_num (js_get ps ''progress'')))
            then Inl ((coded_Error ''Goal progress must be a non-negative number'' ''INVALID_GOAL_PROGRESS'')
                        \<lparr>tool := Some ''updateGoal'', params := Some ps\<rparr>)
            else Inr (JObj
              [(''actionMetadata'',
                  JObj [(''tool'', JStr ''updateGoal''),
                        (''goal_id'', js_or (js_get ps ''goalId'') (js_get ps ''id'')),
                        (''updates'', ps)]),
               (''contextItemId'', js_or (js_get ps ''goalId'') (js_get ps ''id'')),
               (''contextItemType'', JStr ''goal''),
               (''updatedItemType'', JStr ''goal''),
               (''actionIcon'', JStr ''edit'')]))))
   \<and> ((\<exists>err. executeUpdateTask ps = Inl err \<and> code err = Some ''MISSING_UPDATE_DATA'') \<longleftrightarrow>
        isValidUUID (js_or (js_get ps ''taskId'') (js_get ps ''id''))
        \<and> truthy (js_get ps ''updates'') \<and> typeof (js_get ps ''updates'') \<noteq> ''object'')
   \<and> ((\<exists>err. executeUpdateReminder e ps = Inl err \<and> code err = Some ''MISSING_UPDATE_DATA'') \<longleftrightarrow>
        isValidUUID (js_or (js_get ps ''reminderId'') (js_get ps ''id''))
        \<and> truthy (js_get ps ''updates'') \<and> typeof (js_get ps ''updates'') \<noteq> ''object'')
   \<and> ((\<exists>err. executeUpdateGoal ps = Inl err \<and> code err = Some ''MISSING_UPDATE_DATA'') \<longleftrightarrow>
        isValidUUID (js_or (js_get ps ''goalId'') (js_get ps ''id''))
        \<and> truthy (js_get ps ''updates'') \<and> typeof (js_get ps ''updates'') \<noteq> ''object'')"
  using executeUpdateTask_no_updates [of ps] executeUpdateReminder_no_updates [of ps e]
    executeUpdateGoal_no_updates [of ps]
    executeUpdateTask_missing_update_iff [of ps] executeUpdateReminder_missing_update_iff [of e ps]
    executeUpdateGoal_missing_update_iff [of ps]
  by blast

theorem update_without_updates_field_witness:
  "executeUpdateTask (JObj [(''taskId'', JStr ''a1b2c3d4-e5f6-4789-a012-b3c4d5e6f789''), (''title'', JStr ''x'')]) =
     Inr (JObj
           [(''actionMetadata'',
               JObj [(''tool'', JStr ''updateTask''),
                     (''task_id'', JStr ''a1b2c3d4-e5f6-4789-a012-b3c4d5e6f789''),
                     (''updates'', JObj [(''taskId'', JStr ''a1b2c3d4-e5f6-4789-a012-b3c4d5e6f789''), (''title'', JStr ''x'')])]),
            (''contextItemId'', JStr ''a1b2c3d4-e5f6-4789-a012-b3c4d5e6f789''),
            (''contextItemType'', JStr ''task''),
            (''updatedItemType'', JStr ''task''),
            (''actionIcon'', JStr ''edit'')])"
proof -
  let ?ps = "JObj [(''taskId'', JStr ''a1b2c3d4-e5f6-4789-a012-b3c4d5e6f789''), (''title'', JStr ''x'')]"
  have v: "uuidRegex_test ''a1b2c3d4-e5f6-4789-a012-b3c4d5e6f789''" by code_simp
  have u: "\<not> truthy (js_get ?ps ''updates'')" by simp
  have t: "js_or (js_get ?ps ''taskId'') (js_get ?ps ''id'') = JStr ''a1b2c3d4-e5f6-4789-a012-b3c4d5e6f789''"
    by (simp add: js_or_def)
  have i: "isValidUUID (js_or (js_get ?ps ''taskId'') (js_get ?ps ''id''))"
    unfolding t using v by simp
  from update_without_updates_field [of ?ps sample_env] u i show ?thesis
    unfolding t by blast
qed

text \<open>
  Claim C10 as stated fails: object-typed parameters whose \<open>updates\<close> is a
  non-empty string reach the \<open>MISSING_UPDATE_DATA\<close> branch.
\<close>

theorem update_with_string_updates_is_missing_data:
  "isValidUUID (JStr ''a1b2c3d4-e5f6-4789-a012-b3c4d5e6f789'')
   \<and> executeUpdateTask (JObj [(''taskId'', JStr ''a1b2c3d4-e5f6-4789-a012-b3c4d5e6f789''), (''updates'', JStr ''x'')]) =
       Inl \<lparr>message = ''Update data is required'', code = Some ''MISSING_UPDATE_DATA'',
            generatedValue = None, primaryError = None, fallbackError = None, cryptoError = None,
            mathError = None, timestamp = None, tool = Some ''updateTask'',
            params = Some (JObj [(''taskId'', JStr ''a1b2c3d4-e5f6-4789-a012-b3c4d5e6f789''), (''updates'', JStr ''x'')])\<rparr>"
  by code_simp

section \<open>Expense tracking: properties\<close>

lemma trackLoop_invalid:
  "\<exists>x\<in>set xs. \<not> expense_ok x \<Longrightarrow> \<exists>err n'. trackLoop e n i xs acc = (Inl err, n')"
proof (induction xs arbitrary: n i acc)
  case Nil
  then show ?case by simp
next
  case (Cons x xs)
  show ?case
  proof (cases "expense_ok x")
    case False
    then show ?thesis by (auto simp: expense_ok_def)
  next
    case True
    with Cons.prems have rest: "\<exists>y\<in>set xs. \<not> expense_ok y" by auto
    from True have ok: "\<not> nullish x" "truthy (js_get x ''item'')" "typeof (js_get x ''item'') = ''string''"
      "truthy (js_get x ''amount'')" "typeof (js_get x ''amount'') = ''number''"
      "\<not> num_le_zero (the_num (js_get x ''amount''))"
      by (simp_all add: expense_ok_def)
    show ?thesis
    proof (cases "generateUUID e n")
      case (Inl err)
      then show ?thesis using ok by (simp del: js_get.simps)
    next
      case (Inr u)
      show ?thesis
        using ok Inr Cons.IH [OF rest, of "Suc n" "Suc i" "acc @ [validated_expense x u]"]
        by (simp del: js_get.simps)
    qed
  qed
qed


lemma run_tool_trackExpenses: "run_tool e n (JStr ''trackExpenses'') ps = executeTrackExpenses e n ps"
  by (simp add: run_tool_def)

lemma executeTrackExpenses_invalid:
  assumes "\<exists>x\<in>set (normalize_expenses ps). \<not> expense_ok x"
  shows "\<exists>err n'. executeTrackExpenses e n ps = (Inl err, n')"
proof (cases "nullish ps")
  case True
  then show ?thesis by (simp add: executeTrackExpenses_def rethrow_with_def)
next
  case False
  from assms have ne: "normalize_expenses ps \<noteq> []" by auto
  from trackLoop_invalid [OF assms, of e n 0 "[]"]
  obtain err n' where "trackLoop e n 0 (normalize_expenses ps) [] = (Inl err, n')" by blast
  with False ne show ?thesis
    by (simp add: executeTrackExpenses_def rethrow_with_def Let_def)
qed

text \<open>
  Claim C6. When any item of the batch fails the loop's validation (no item name,
  an item name that is not a string, an amount that is not a number above 0),
  \<open>executeTrackExpenses\<close> throws one error and returns nothing; the fragment the
  dispatcher makes of it holds \<open>errorDetails\<close> alone: no \<open>multipleActions\<close>, no
  \<open>actionMetadata\<close>, nothing of the items that were valid.
\<close>

theorem trackExpenses_invalid_item_fails_batch:
  assumes "\<exists>x\<in>set (normalize_expenses ps). \<not> expense_ok x"
  shows "\<exists>err n'. executeTrackExpenses e n ps = (Inl err, n')
           \<and> (truthy ps \<longrightarrow>
                (\<exists>frag. executeToolIfNeeded e n (JObj [(''tool'', JStr ''trackExpenses''), (''toolParams'', ps)]) = (Inr frag, n')
                   \<and> frag = JObj [(''errorDetails'', errorResponse e (JStr ''trackExpenses'') err ps)]
                   \<and> createToolErrorResponse e (JStr ''trackExpenses'') err ps
                       = Inr (errorResponse e (JStr ''trackExpenses'') err ps)
                   \<and> js_get frag ''multipleActions'' = JUndefined
                   \<and> js_get frag ''actionMetadata'' = JUndefined))"
proof -
  from executeTrackExpenses_invalid [OF assms, of e n]
  obtain err n' where x: "executeTrackExpenses e n ps = (Inl err, n')" by blast
  have "executeToolIfNeeded e n (JObj [(''tool'', JStr ''trackExpenses''), (''toolParams'', ps)])
          = (Inr (JObj [(''errorDetails'', errorResponse e (JStr ''trackExpenses'') err ps)]), n')"
    if "truthy ps"
    by (subst executeToolIfNeeded_named) (simp_all add: that run_tool_trackExpenses x)
  with x show ?thesis by (simp add: createToolErrorResponse_string)
qed

theorem trackExpenses_invalid_item_fails_batch_witness:
  "\<exists>err n'. executeTrackExpenses sample_env 0 mixed_batch_params = (Inl err, n')
      \<and> executeToolIfNeeded sample_env 0 (JObj [(''tool'', JStr ''trackExpenses''), (''toolParams'', mixed_batch_params)])
          = (Inr (JObj [(''errorDetails'', errorResponse sample_env (JStr ''trackExpenses'') err mixed_batch_params)]), n')"
proof -
  have bad: "\<not> expense_ok (JObj [(''item'', JStr ''Refund''), (''amount'', JNum (Fin (- 3)))])"
    by (simp add: expense_ok_def)
  have h: "\<exists>x\<in>set (normalize_expenses mixed_batch_params). \<not> expense_ok x"
    using bad by (simp add: normalize_expenses_def mixed_batch_params_def)
  have t: "truthy mixed_batch_params" by (simp add: mixed_batch_params_def)
  from trackExpenses_invalid_item_fails_batch [OF h, of sample_env 0] t show ?thesis by blast
qed


lemma map_of_js_set: "map_of (js_set kvs k v) k' = (if k' = k then Some v else map_of kvs k')"
  by (induction kvs) auto

lemma js_get_validated_id: "js_get (validated_expense x u) ''expense_id'' = JStr u"
  by (simp add: validated_expense_def map_of_js_set)

lemma js_get_validated_amount:
  assumes "expense_ok x"
  shows "js_get (validated_expense x u) ''amount'' = js_get x ''amount''"
proof -
  from assms have "truthy (js_get x ''item'')" by (simp add: expense_ok_def)
  then obtain kvs where "x = JObj kvs" using truthy_get_obj by blast
  then show ?thesis by (simp add: validated_expense_def map_of_js_set)
qed

lemma expense_ok_amount: "expense_ok x \<Longrightarrow> js_get x ''amount'' = JNum (the_num (js_get x ''amount''))"
  by (cases "js_get x ''amount''") (simp_all add: expense_ok_def)

lemma trackLoop_ok:
  assumes "\<forall>x\<in>set xs. expense_ok x" and "length ids = length xs"
    and "\<forall>k<length xs. generateUUID e (n + k) = Inr (ids ! k)"
  shows "trackLoop e n i xs acc = (Inr (acc @ map2 validated_expense xs ids), n + length xs)"
  using assms
proof (induction xs arbitrary: n i acc ids)
  case Nil
  then show ?case by simp
next
  case (Cons x xs)
  from Cons.prems(2) obtain u us where ids: "ids = u # us" and len: "length us = length xs"
    by (cases ids) auto
  from Cons.prems(1) have "expense_ok x" by simp
  then have ok: "\<not> nullish x" "truthy (js_get x ''item'')" "typeof (js_get x ''item'') = ''string''"
      "truthy (js_get x ''amount'')" "typeof (js_get x ''amount'') = ''number''"
      "\<not> num_le_zero (the_num (js_get x ''amount''))"
    by (simp_all add: expense_ok_def)
  from Cons.prems(3) [rule_format, of 0] have g: "generateUUID e n = Inr u" by (simp add: ids)
  then have v: "uuidRegex_test u" by (rule generateUUID_valid)
  have rest: "\<forall>k<length xs. generateUUID e (Suc n + k) = Inr (us ! k)"
  proof (intro allI impI)
    fix k assume "k < length xs"
    with Cons.prems(3) [rule_format, of "Suc k"] show "generateUUID e (Suc n + k) = Inr (us ! k)"
      by (simp add: ids)
  qed
  from Cons.prems(1) have oks: "\<forall>y\<in>set xs. expense_ok y" by simp
  show ?case
    using ok g v Cons.IH [OF oks len rest, of "Suc i" "acc @ [validated_expense x u]"]
    by (simp add: ids del: js_get.simps)
qed

lemma total_amount_fold:
  assumes "\<forall>x\<in>set xs. expense_ok x" and "length ids = length xs"
  shows "foldl (\<lambda>sum exp. js_plus e sum (js_get exp ''amount'')) (JNum a) (map2 validated_expense xs ids)
           = JNum (foldl (numberAdd e) a (map (\<lambda>x. the_num (js_get x ''amount'')) xs))"
  using assms
proof (induction xs arbitrary: a ids)
  case Nil
  then show ?case by simp
next
  case (Cons x xs)
  from Cons.prems(2) obtain u us where ids: "ids = u # us" and len: "length us = length xs"
    by (cases ids) auto
  from Cons.prems(1) have okx: "expense_ok x" and oks: "\<forall>y\<in>set xs. expense_ok y" by simp_all
  have am: "js_get (validated_expense x u) ''amount'' = JNum (the_num (js_get x ''amount''))"
    using js_get_validated_amount [OF okx] expense_ok_amount [OF okx] by simp
  show ?case
    using Cons.IH [OF oks len, of "numberAdd e a (the_num (js_get x ''amount''))"]
    by (simp add: ids am del: js_get.simps)
qed

lemma normalize_expenses_array: "js_get ps ''expenses'' = JArr xs \<Longrightarrow> normalize_expenses ps = xs"
  by (simp add: normalize_expenses_def)

lemma executeTrackExpenses_ok:
  assumes "js_get ps ''expenses'' = JArr xs" and "xs \<noteq> []"
    and "\<forall>x\<in>set xs. expense_ok x"
    and "length ids = length xs"
    and "\<forall>k<length xs. generateUUID e (n + k) = Inr (ids ! k)"
  shows "executeTrackExpenses e n ps =
     (Inr (JObj
        [(''actionMetadata'',
            JObj [(''tool'', JStr ''trackExpenses''),
                  (''expenses'', JArr (map2 validated_expense xs ids)),
                  (''total_amount'',
                     JNum (foldl (numberAdd e) (Fin 0) (map (\<lambda>x. the_num (js_get x ''amount'')) xs)))]),
         (''multipleActions'',
            JArr (map (\<lambda>expense. JObj [(''type'', JStr ''expense''),
                                      (''id'', js_get expense ''expense_id''),
                                      (''data'', expense)])
                   (map2 validated_expense xs ids))),
         (''updatedItemType'', JStr ''expense''),
         (''actionIcon'', JStr ''receipt'')]), n + length xs)"
proof -
  from assms(1) have nn: "\<not> nullish ps" by (cases ps) simp_all
  note ne = normalize_expenses_array [OF assms(1)]
  have l: "trackLoop e n 0 xs [] = (Inr (map2 validated_expense xs ids), n + length xs)"
    using trackLoop_ok [OF assms(3,4,5), of 0 "[]"] by simp
  have t: "foldl (\<lambda>sum exp. js_plus e sum (js_get exp ''amount'')) (JNum (Fin 0))
             (map2 validated_expense xs ids)
           = JNum (foldl (numberAdd e) (Fin 0) (map (\<lambda>x. the_num (js_get x ''amount'')) xs))"
    by (rule total_amount_fold [OF assms(3,4)])
  show ?thesis
    using nn assms(2) by (simp add: executeTrackExpenses_def Let_def ne l t rethrow_with_def del: js_get.simps)
qed

lemma multipleActions_entries:
  assumes "length ids = length xs"
  shows "map (\<lambda>expense. JObj [(''type'', JStr ''expense''), (''id'', js_get expense ''expense_id''), (''data'', expense)])
             (map2 validated_expense xs ids)
         = map2 (\<lambda>x u. JObj [(''type'', JStr ''expense''), (''id'', JStr u), (''data'', validated_expense x u)]) xs ids"
  by (simp add: js_get_validated_id case_prod_beta del: js_get.simps)

text \<open>
  Claim C7. For a batch \<open>expenses: xs\<close> whose items all pass validation, with
  the generator succeeding at each of its calls, \<open>multipleActions\<close> has one
  entry for each expense of \<open>xs\<close>, in order; the entry's id is the identifier
  the generator returned at that expense's call (a valid one); \<open>total_amount\<close>
  is the sum of the amounts of \<open>xs\<close> as the program's \<open>+\<close> adds them, from 0
  and from left to right (the platform's addition, not the exact sum of the
  rationals); and the fragment has no \<open>contextItemType\<close> and no
  \<open>contextItemId\<close>. For the one-expense Coffee batch the total is
  \<open>0 + 5.5\<close>, which is 5.5 where adding 0 returns the other operand.
\<close>

theorem trackExpenses_valid_batch:
  assumes "js_get ps ''expenses'' = JArr xs" and "xs \<noteq> []"
    and "\<forall>x\<in>set xs. expense_ok x"
    and "length ids = length xs"
    and "\<forall>k<length xs. generateUUID e (n + k) = Inr (ids ! k)"
  shows "\<exists>frag entries.
           executeTrackExpenses e n ps = (Inr frag, n + length xs)
         \<and> js_get frag ''multipleActions'' = JArr entries
         \<and> length entries = length xs
         \<and> entries = map2 (\<lambda>x u. JObj [(''type'', JStr ''expense''), (''id'', JStr u),
                                        (''data'', validated_expense x u)]) xs ids
         \<and> (\<forall>u\<in>set ids. isValidUUID (JStr u))
         \<and> js_get (js_get frag ''actionMetadata'') ''total_amount'' =
               JNum (foldl (numberAdd e) (Fin 0) (map (\<lambda>x. the_num (js_get x ''amount'')) xs))
         \<and> js_get frag ''contextItemType'' = JUndefined
         \<and> js_get frag ''contextItemId'' = JUndefined"
proof -
  let ?entries = "map2 (\<lambda>x u. JObj [(''type'', JStr ''expense''), (''id'', JStr u),
                                        (''data'', validated_expense x u)]) xs ids"
  have valid: "\<forall>u\<in>set ids. isValidUUID (JStr u)"
  proof
    fix u assume "u \<in> set ids"
    then obtain k where k: "k < length ids" and u: "ids ! k = u" by (auto simp: in_set_conv_nth)
    with assms(4,5) have "generateUUID e (n + k) = Inr u" by auto
    then show "isValidUUID (JStr u)" using generateUUID_valid by simp
  qed
  have len: "length ?entries = length xs" using assms(4) by simp
  note x = executeTrackExpenses_ok [OF assms, unfolded multipleActions_entries [OF assms(4)]]
  show ?thesis
    apply (rule exI, rule exI [of _ ?entries])
    apply (intro conjI)
           apply (rule x)
          apply simp
         apply (rule len)
        apply (rule refl)
       apply (rule valid)
      apply simp
     apply simp
    apply simp
    done
qed

theorem trackExpenses_valid_batch_witness:
  "\<exists>frag. executeTrackExpenses sample_env 0 coffee_params = (Inr frag, 1)
      \<and> js_get frag ''multipleActions'' =
           JArr [JObj [(''type'', JStr ''expense''),
                       (''id'', JStr ''a1b2c3d4-e5f6-4789-a012-b3c4d5e6f780''),
                       (''data'', JObj [(''item'', JStr ''Coffee''), (''amount'', JNum (Fin (11 / 2))),
                                        (''category'', JStr ''Food''), (''date'', JStr ''2024-01-15''),
                                        (''expense_id'', JStr ''a1b2c3d4-e5f6-4789-a012-b3c4d5e6f780'')])]]
      \<and> js_get (js_get frag ''actionMetadata'') ''total_amount'' = JNum (Fin (11 / 2))
      \<and> js_get frag ''contextItemType'' = JUndefined"
proof -
  let ?x = "JObj [(''item'', JStr ''Coffee''), (''amount'', JNum (Fin (11 / 2))),
                  (''category'', JStr ''Food''), (''date'', JStr ''2024-01-15'')]"
  let ?ids = "[''a1b2c3d4-e5f6-4789-a012-b3c4d5e6f780'']"
  have 1: "js_get coffee_params ''expenses'' = JArr [?x]"
    by (simp add: coffee_params_def)
  have 2: "[?x] \<noteq> []" by simp
  have 3: "\<forall>x\<in>set [?x]. expense_ok x"
    by (simp add: expense_ok_def)
  have 4: "length ?ids = length [?x]" by simp
  have g: "generateUUID sample_env 0 = Inr ''a1b2c3d4-e5f6-4789-a012-b3c4d5e6f780''" by code_simp
  have 5: "\<forall>k<length [?x]. generateUUID sample_env (0 + k) = Inr (?ids ! k)"
    by (simp add: g)
  have v: "validated_expense ?x ''a1b2c3d4-e5f6-4789-a012-b3c4d5e6f780'' =
             JObj [(''item'', JStr ''Coffee''), (''amount'', JNum (Fin (11 / 2))),
                   (''category'', JStr ''Food''), (''date'', JStr ''2024-01-15''),
                   (''expense_id'', JStr ''a1b2c3d4-e5f6-4789-a012-b3c4d5e6f780'')]"
    by code_simp
  have add: "numberAdd sample_env (Fin 0) (Fin (11 / 2)) = Fin (11 / 2)"
    by (simp add: sample_env_def sample_add_def)
  from trackExpenses_valid_batch [OF 1 2 3 4 5]
  obtain frag entries where
      a: "executeTrackExpenses sample_env 0 coffee_params = (Inr frag, 0 + length [?x])"
    and b: "js_get frag ''multipleActions'' = JArr entries"
    and c: "entries = map2 (\<lambda>x u. JObj [(''type'', JStr ''expense''), (''id'', JStr u),
                                        (''data'', validated_expense x u)]) [?x] ?ids"
    and d: "js_get (js_get frag ''actionMetadata'') ''total_amount'' =
               JNum (foldl (numberAdd sample_env) (Fin 0) (map (\<lambda>x. the_num (js_get x ''amount'')) [?x]))"
    and f: "js_get frag ''contextItemType'' = JUndefined"
    by blast
  from a have a': "executeTrackExpenses sample_env 0 coffee_params = (Inr frag, 1)" by simp
  from c have c': "entries = [JObj [(''type'', JStr ''expense''),
                       (''id'', JStr ''a1b2c3d4-e5f6-4789-a012-b3c4d5e6f780''),
                       (''data'', JObj [(''item'', JStr ''Coffee''), (''amount'', JNum (Fin (11 / 2))),
                                        (''category'', JStr ''Food''), (''date'', JStr ''2024-01-15''),
                                        (''expense_id'', JStr ''a1b2c3d4-e5f6-4789-a012-b3c4d5e6f780'')])]]"
    by (simp only: v zip.simps list.map prod.case list.case)
  from d have d': "js_get (js_get frag ''actionMetadata'') ''total_amount'' = JNum (Fin (11 / 2))"
    by (simp add: add)
  from a' b c' d' f show ?thesis by blast
qed

section \<open>Request handler: properties\<close>

lemma startsWith_lower:
  "startsWith (map lower_char s) (map lower_char p) = matches_ignoring_case s p"
  by (induction s p rule: matches_ignoring_case.induct) simp_all

lemma str_includes_lower:
  "str_includes (toLowerCase s) (toLowerCase p) = contains_ignoring_case s p"
  unfolding toLowerCase_def
  by (induction s) (simp_all add: startsWith_lower [of "c # cs" for c cs, simplified])

lemma identity_phrases_lower: "p \<in> set identity_phrases \<Longrightarrow> toLowerCase p = p"
  unfolding identity_phrases_def by (auto simp: toLowerCase_def lower_char_def)

lemma identity_phrases_nonempty: "p \<in> set identity_phrases \<Longrightarrow> p \<noteq> []"
  unfolding identity_phrases_def by auto

lemma isIdentityQuestion_phrase:
  assumes "p \<in> set identity_phrases" and "contains_ignoring_case s p"
  shows "isIdentityQuestion (JStr s) = Inr True"
proof -
  from assms(2) identity_phrases_nonempty [OF assms(1)] have ne: "s \<noteq> []"
    by (cases s) auto
  have "str_includes (toLowerCase s) p"
    using str_includes_lower [of s p] identity_phrases_lower [OF assms(1)] assms(2) by simp
  with assms(1) ne show ?thesis
    unfolding isIdentityQuestion_def identity_phrases_def by (auto simp: Let_def)
qed

text \<open>
  Claim C9. When the \<open>chatInput\<close> of a request is a string that contains one of
  the six creator/origin phrases, in any letter case, the handler answers with the
  fixed identity sentence, \<open>actionIcon\<close> \<open>info\<close> and every other structured
  field \<open>null\<close>; it builds no prompt, makes no completion call and mints no
  identifier, whatever the environment and the rest of the request.
\<close>

theorem identity_short_circuit:
  assumes "js_get reqBody ''chatInput'' = JStr s"
    and "\<exists>p\<in>set identity_phrases. contains_ignoring_case s p"
  shows "chat_handler e n reqBody = (Inr identity_reply, n)
       \<and> statusCode identity_reply = 200
       \<and> json identity_reply =
           JObj [(''aiResponseText'', JStr ''I was built with care by some awesome humans, led by Aakash.''),
                 (''actionMetadata'', JNull),
                 (''contextItemId'', JNull),
                 (''contextItemType'', JNull),
                 (''updatedItemType'', JNull),
                 (''actionIcon'', JStr ''info''),
                 (''multipleActions'', JNull),
                 (''errorDetails'', JNull)]
       \<and> promptBuilds identity_reply = 0
       \<and> upstreamCalls identity_reply = 0"
proof -
  from assms(2) obtain p where p: "p \<in> set identity_phrases" and c: "contains_ignoring_case s p" by blast
  have q: "isIdentityQuestion (JStr s) = Inr True" using p c by (rule isIdentityQuestion_phrase)
  from c identity_phrases_nonempty [OF p] have ne: "s \<noteq> []" by (cases s) auto
  from assms(1) have nn: "\<not> nullish reqBody" by (cases reqBody) auto
  have "chat_handler e n reqBody = (Inr identity_reply, n)"
    using nn ne by (simp add: chat_handler_def assms(1) q del: js_get.simps)
  then show ?thesis by (simp add: identity_reply_def)
qed

theorem identity_short_circuit_witness:
  "chat_handler sample_env 0 (JObj [(''chatInput'', JStr ''Who made you?'')]) = (Inr identity_reply, 0)"
proof -
  have g: "js_get (JObj [(''chatInput'', JStr ''Who made you?'')]) ''chatInput'' = JStr ''Who made you?''"
    by simp
  have c: "contains_ignoring_case ''Who made you?'' ''who made you''" by code_simp
  have m: "''who made you'' \<in> set identity_phrases" by (simp add: identity_phrases_def)
  from m c have h: "\<exists>p\<in>set identity_phrases. contains_ignoring_case ''Who made you?'' p" by blast
  from identity_short_circuit [OF g h, of sample_env 0] show ?thesis by blast
qed

section \<open>Response parser: properties\<close>

lemma dropWhile_neq_skip: "x \<notin> set pre \<Longrightarrow> dropWhile (\<lambda>c. c \<noteq> x) (pre @ x # ys) = x # ys"
  by (induction pre) auto

lemma rev_dropWhile_takeWhile: "rev (dropWhile Q (rev xs)) @ rev (takeWhile Q (rev xs)) = xs"
  by (metis rev_append rev_rev_ident takeWhile_dropWhile_id)

lemma brace_match_SomeD:
  assumes "brace_match s = Some m"
  shows "\<exists>pre suf. s = pre @ m @ suf \<and> CHR ''{'' \<notin> set pre \<and> CHR ''}'' \<notin> set suf
           \<and> m \<noteq> [] \<and> hd m = CHR ''{'' \<and> last m = CHR ''}''"
proof -
  let ?P = "\<lambda>c. c \<noteq> CHR ''{''" and ?Q = "\<lambda>c. c \<noteq> CHR ''}''"
  let ?t = "dropWhile ?P s"
  let ?pre = "takeWhile ?P s"
  let ?suf = "rev (takeWhile ?Q (rev ?t))"
  from assms have t: "?t \<noteq> []" and m: "m = rev (dropWhile ?Q (rev ?t))" and mne: "m \<noteq> []"
    by (auto simp: brace_match_def Let_def split: if_splits)
  have s: "s = ?pre @ ?t" by simp
  have tm: "?t = m @ ?suf"
    unfolding m by (rule rev_dropWhile_takeWhile [symmetric])
  have pre: "CHR ''{'' \<notin> set ?pre" using set_takeWhileD by fastforce
  have suf: "CHR ''}'' \<notin> set ?suf" using set_takeWhileD by fastforce
  have hdt: "hd ?t = CHR ''{''" using hd_dropWhile [OF t] by simp
  have hdm: "hd m = CHR ''{''" using hdt tm mne by (metis hd_append2)
  have "dropWhile ?Q (rev ?t) \<noteq> []" using mne m by simp
  from hd_dropWhile [OF this] have "hd (dropWhile ?Q (rev ?t)) = CHR ''}''" by simp
  then have lastm: "last m = CHR ''}''" using mne m by (simp add: last_rev)
  from s tm have "s = ?pre @ m @ ?suf" by simp
  with pre suf mne hdm lastm show ?thesis by blast
qed

lemma brace_match_SomeI:
  assumes "s = pre @ m @ suf" and "CHR ''{'' \<notin> set pre" and "CHR ''}'' \<notin> set suf"
    and "m \<noteq> []" and "hd m = CHR ''{''" and "last m = CHR ''}''"
  shows "brace_match s = Some m"
proof -
  let ?P = "\<lambda>c. c \<noteq> CHR ''{''" and ?Q = "\<lambda>c. c \<noteq> CHR ''}''"
  from assms(4,5) obtain m' where m: "m = CHR ''{'' # m'" by (cases m) auto
  have t: "dropWhile ?P s = m @ suf"
    using dropWhile_neq_skip [OF assms(2), of "m' @ suf"] by (simp add: assms(1) m)
  from assms(4,6) obtain r where r: "rev m = CHR ''}'' # r"
    by (cases "rev m") (auto simp: last_rev [symmetric] hd_rev)
  have "dropWhile ?Q (rev (m @ suf)) = rev m"
    using dropWhile_neq_skip [of "CHR ''}''" "rev suf" r] assms(3) by (simp add: r)
  then show ?thesis
    using assms(4) by (simp add: brace_match_def t Let_def)
qed

lemma brace_match_None_iff:
  "brace_match s = None \<longleftrightarrow> \<not> (\<exists>pre mid suf. s = pre @ CHR ''{'' # mid @ CHR ''}'' # suf)"
proof
  assume n: "brace_match s = None"
  show "\<not> (\<exists>pre mid suf. s = pre @ CHR ''{'' # mid @ CHR ''}'' # suf)"
  proof
    assume "\<exists>pre mid suf. s = pre @ CHR ''{'' # mid @ CHR ''}'' # suf"
    then obtain pre mid suf where s: "s = pre @ CHR ''{'' # mid @ CHR ''}'' # suf" by blast
    let ?P = "\<lambda>c. c \<noteq> CHR ''{''" and ?Q = "\<lambda>c. c \<noteq> CHR ''}''"
    have "CHR ''{'' \<in> set s" by (simp add: s)
    then have t: "dropWhile ?P s \<noteq> []" by (simp add: dropWhile_eq_Nil_conv) 
    have "\<exists>a b. dropWhile ?P s = CHR ''{'' # a @ CHR ''}'' # b"
    proof (cases "CHR ''{'' \<in> set pre")
      case False
      then have "dropWhile ?P s = CHR ''{'' # mid @ CHR ''}'' # suf"
        unfolding s by (rule dropWhile_neq_skip)
      then show ?thesis by blast
    next
      case True
      then have "dropWhile ?P s = dropWhile ?P pre @ CHR ''{'' # mid @ CHR ''}'' # suf"
        by (simp add: s dropWhile_append1)
      moreover from True have "dropWhile ?P pre \<noteq> []" by (simp add: dropWhile_eq_Nil_conv)
      then obtain x where "dropWhile ?P pre = CHR ''{'' # x"
        using hd_dropWhile [of ?P pre] by (cases "dropWhile ?P pre") auto
      ultimately have "dropWhile ?P s = CHR ''{'' # (x @ CHR ''{'' # mid) @ CHR ''}'' # suf" by simp
      then show ?thesis by blast
    qed
    then obtain a b where ab: "dropWhile ?P s = CHR ''{'' # a @ CHR ''}'' # b" by blast
    have "CHR ''}'' \<in> set (rev (dropWhile ?P s))" by (simp add: ab)
    then have "dropWhile ?Q (rev (dropWhile ?P s)) \<noteq> []" by (simp add: dropWhile_eq_Nil_conv)
    with t have "brace_match s \<noteq> None" by (simp add: brace_match_def Let_def)
    with n show False by simp
  qed
next
  assume a: "\<not> (\<exists>pre mid suf. s = pre @ CHR ''{'' # mid @ CHR ''}'' # suf)"
  show "brace_match s = None"
  proof (rule ccontr)
    assume "brace_match s \<noteq> None"
    then obtain m where "brace_match s = Some m" by auto
    from brace_match_SomeD [OF this] obtain pre suf where s: "s = pre @ m @ suf"
      and m: "m \<noteq> []" "hd m = CHR ''{''" "last m = CHR ''}''" by blast
    from m obtain m' where m': "m = CHR ''{'' # m'" by (cases m) auto
    with m(3) have "m' \<noteq> []" by auto
    with m(3) m' obtain mid where "m' = mid @ [CHR ''}'']"
      by (metis append_butlast_last_id last_ConsR)
    with s m' have "s = pre @ CHR ''{'' # mid @ CHR ''}'' # suf" by simp
    with a show False by blast
  qed
qed


lemma parseAIResponse_no_match:
  "brace_match s = None \<Longrightarrow> parseAIResponse e n (JStr s) = (plain_text_response (JStr s), n)"
  by (simp add: parseAIResponse_def parseAIResponse_try_def)

lemma parseAIResponse_bad_json:
  "brace_match s = Some m \<Longrightarrow> JSON_parse e m = None \<Longrightarrow>
     parseAIResponse e n (JStr s) = (plain_text_response (JStr s), n)"
  by (simp add: parseAIResponse_def parseAIResponse_try_def)

lemma parseAIResponse_dispatch_throws:
  "brace_match s = Some m \<Longrightarrow> JSON_parse e m = Some parsed \<Longrightarrow>
   executeToolIfNeeded e n parsed = (Inl err, n') \<Longrightarrow>
     parseAIResponse e n (JStr s) = (plain_text_response (JStr s), n')"
  by (simp add: parseAIResponse_def parseAIResponse_try_def)

lemma parseAIResponse_merged:
  "brace_match s = Some m \<Longrightarrow> JSON_parse e m = Some parsed \<Longrightarrow>
   executeToolIfNeeded e n parsed = (Inr toolResult, n') \<Longrightarrow>
     parseAIResponse e n (JStr s) = (merged_response (JStr s) parsed toolResult, n')"
  by (simp add: parseAIResponse_def parseAIResponse_try_def)

lemma parseAIResponse_cases:
  "fst (parseAIResponse e n (JStr s)) = plain_text_response (JStr s)
   \<or> (\<exists>m parsed toolResult n'. brace_match s = Some m \<and> JSON_parse e m = Some parsed
         \<and> executeToolIfNeeded e n parsed = (Inr toolResult, n')
         \<and> parseAIResponse e n (JStr s) = (merged_response (JStr s) parsed toolResult, n'))"
proof (cases "brace_match s")
  case None
  then show ?thesis by (simp add: parseAIResponse_no_match)
next
  case (Some m)
  show ?thesis
  proof (cases "JSON_parse e m")
    case None
    with Some show ?thesis by (simp add: parseAIResponse_bad_json)
  next
    case (Some parsed)
    note p = this
    obtain r n' where x: "executeToolIfNeeded e n parsed = (r, n')" by (cases "executeToolIfNeeded e n parsed")
    show ?thesis
    proof (cases r)
      case (Inl err)
      with \<open>brace_match s = Some m\<close> p x show ?thesis by (simp add: parseAIResponse_dispatch_throws)
    next
      case (Inr toolResult)
      with \<open>brace_match s = Some m\<close> p x parseAIResponse_merged show ?thesis by blast
    qed
  qed
qed

lemma executeToolIfNeeded_throws_iff:
  "(\<exists>err n'. executeToolIfNeeded e n parsed = (Inl err, n')) \<longleftrightarrow>
     nullish parsed
     \<or> (truthy (js_or (js_get parsed ''tool'') (js_get parsed ''selectedTool''))
        \<and> js_toString (numberToString e) (js_or (js_get parsed ''tool'') (js_get parsed ''selectedTool'')) = None)"
proof (cases "nullish parsed")
  case True
  then show ?thesis by (simp add: executeToolIfNeeded_def)
next
  case False
  show ?thesis
  proof (cases "js_toString (numberToString e) (js_or (js_get parsed ''tool'') (js_get parsed ''selectedTool''))")
    case None
    with False show ?thesis
      by (auto simp: executeToolIfNeeded_def Let_def template_of_def createToolErrorResponse_def
          simp del: js_get.simps)
  next
    case (Some name)
    with False show ?thesis
      by (auto simp: executeToolIfNeeded_def Let_def template_of_def createToolErrorResponse_def
          split: prod.splits sum.splits simp del: js_get.simps)
  qed
qed

text \<open>
  Claim C3. On every input string \<open>parseAIResponse\<close> returns, and what it
  returns is fixed by the brace span of the text. The span runs from the first
  \<open>{\<close> of the text through its last \<open>}\<close>, and there is none exactly when no
  \<open>{\<close> is followed by a \<open>}\<close>. When there is no span, when the span does not
  decode, or when the dispatcher throws on the decoded object, the result is the
  plain-text response: \<open>aiResponseText\<close> is the raw text and the seven
  structured fields are \<open>null\<close>. When the span decodes and the dispatcher
  returns a fragment, the result is the response merged from the decoded object
  and that fragment.
\<close>

theorem parseAIResponse_never_throws:
  "(brace_match s = None \<longrightarrow>
      parseAIResponse e n (JStr s) = (plain_text_response (JStr s), n))
   \<and> (\<forall>m. brace_match s = Some m \<and> JSON_parse e m = None \<longrightarrow>
          parseAIResponse e n (JStr s) = (plain_text_response (JStr s), n))
   \<and> (\<forall>m parsed err n'. brace_match s = Some m \<and> JSON_parse e m = Some parsed
          \<and> executeToolIfNeeded e n parsed = (Inl err, n') \<longrightarrow>
          parseAIResponse e n (JStr s) = (plain_text_response (JStr s), n'))
   \<and> (\<forall>m parsed toolResult n'. brace_match s = Some m \<and> JSON_parse e m = Some parsed
          \<and> executeToolIfNeeded e n parsed = (Inr toolResult, n') \<longrightarrow>
          parseAIResponse e n (JStr s) = (merged_response (JStr s) parsed toolResult, n'))
   \<and> (fst (parseAIResponse e n (JStr s)) = plain_text_response (JStr s)
      \<or> (\<exists>m parsed toolResult n'. brace_match s = Some m \<and> JSON_parse e m = Some parsed
            \<and> executeToolIfNeeded e n parsed = (Inr toolResult, n')
            \<and> parseAIResponse e n (JStr s) = (merged_response (JStr s) parsed toolResult, n')))
   \<and> (brace_match s = Some m \<longleftrightarrow>
         (\<exists>pre suf. s = pre @ m @ suf \<and> CHR ''{'' \<notin> set pre \<and> CHR ''}'' \<notin> set suf
            \<and> m \<noteq> [] \<and> hd m = CHR ''{'' \<and> last m = CHR ''}''))
   \<and> (brace_match s = None \<longleftrightarrow> \<not> (\<exists>pre mid suf. s = pre @ CHR ''{'' # mid @ CHR ''}'' # suf))
   \<and> (brace_match s = None
        \<or> (\<exists>m. brace_match s = Some m
              \<and> (JSON_parse e m = None
                  \<or> (\<exists>parsed err n'. JSON_parse e m = Some parsed
                        \<and> executeToolIfNeeded e n parsed = (Inl err, n'))))
       \<longrightarrow> fst (parseAIResponse e n (JStr s)) = plain_text_response (JStr s))
   \<and> plain_text_response (JStr s) =
        JObj [(''aiResponseText'', JStr s),
              (''actionMetadata'', JNull),
              (''contextItemId'', JNull),
              (''contextItemType'', JNull),
              (''updatedItemType'', JNull),
              (''actionIcon'', JNull),
              (''multipleActions'', JNull),
              (''errorDetails'', JNull)]"
proof (intro conjI)
  show "brace_match s = None \<longrightarrow>
      parseAIResponse e n (JStr s) = (plain_text_response (JStr s), n)"
    by (simp add: parseAIResponse_no_match)
  show "\<forall>m. brace_match s = Some m \<and> JSON_parse e m = None \<longrightarrow>
          parseAIResponse e n (JStr s) = (plain_text_response (JStr s), n)"
    by (simp add: parseAIResponse_bad_json)
  show "\<forall>m parsed err n'. brace_match s = Some m \<and> JSON_parse e m = Some parsed
          \<and> executeToolIfNeeded e n parsed = (Inl err, n') \<longrightarrow>
          parseAIResponse e n (JStr s) = (plain_text_response (JStr s), n')"
    using parseAIResponse_dispatch_throws by blast
  show "\<forall>m parsed toolResult n'. brace_match s = Some m \<and> JSON_parse e m = Some parsed
          \<and> executeToolIfNeeded e n parsed = (Inr toolResult, n') \<longrightarrow>
          parseAIResponse e n (JStr s) = (merged_response (JStr s) parsed toolResult, n')"
    using parseAIResponse_merged by blast
  show "fst (parseAIResponse e n (JStr s)) = plain_text_response (JStr s)
      \<or> (\<exists>m parsed toolResult n'. brace_match s = Some m \<and> JSON_parse e m = Some parsed
            \<and> executeToolIfNeeded e n parsed = (Inr toolResult, n')
            \<and> parseAIResponse e n (JStr s) = (merged_response (JStr s) parsed toolResult, n'))"
    by (rule parseAIResponse_cases)
  show "brace_match s = Some m \<longleftrightarrow>
         (\<exists>pre suf. s = pre @ m @ suf \<and> CHR ''{'' \<notin> set pre \<and> CHR ''}'' \<notin> set suf
            \<and> m \<noteq> [] \<and> hd m = CHR ''{'' \<and> last m = CHR ''}'')"
    using brace_match_SomeD [of s m] brace_match_SomeI [of s _ m] by blast
  show "brace_match s = None \<longleftrightarrow> \<not> (\<exists>pre mid suf. s = pre @ CHR ''{'' # mid @ CHR ''}'' # suf)"
    by (rule brace_match_None_iff)
  show "brace_match s = None
        \<or> (\<exists>m. brace_match s = Some m
              \<and> (JSON_parse e m = None
                  \<or> (\<exists>parsed err n'. JSON_parse e m = Some parsed
                        \<and> executeToolIfNeeded e n parsed = (Inl err, n'))))
       \<longrightarrow> fst (parseAIResponse e n (JStr s)) = plain_text_response (JStr s)"
    using parseAIResponse_no_match [of s e n] parseAIResponse_bad_json [of s _ e n]
      parseAIResponse_dispatch_throws [of s _ e _ n]
    by (metis fst_conv)
  show "plain_text_response (JStr s) =
        JObj [(''aiResponseText'', JStr s),
              (''actionMetadata'', JNull),
              (''contextItemId'', JNull),
              (''contextItemType'', JNull),
              (''updatedItemType'', JNull),
              (''actionIcon'', JNull),
              (''multipleActions'', JNull),
              (''errorDetails'', JNull)]"
    by (simp add: plain_text_response_def)
qed

theorem parseAIResponse_never_throws_witness:
  "brace_match ''a{b}c{d}e'' = Some ''{b}c{d}''
   \<and> parseAIResponse sample_env 0 (JStr ''a{b}c{d}e'') = (plain_text_response (JStr ''a{b}c{d}e''), 0)
   \<and> parseAIResponse sample_env 0 (JStr odd_tool_reply_text) = (plain_text_response (JStr odd_tool_reply_text), 0)
   \<and> parseAIResponse sample_env 0 (JStr alias_reply_text) =
       (merged_response (JStr alias_reply_text)
          (JObj [(''aiResponseText'', JStr ''Done''),
                 (''selectedTool'', JStr ''createTask''),
                 (''parameters'', JObj [(''description'', JStr ''buy milk'')]),
                 (''contextItemId'', JStr ''forged''),
                 (''actionIcon'', JStr ''star'')])
          (JObj [(''actionMetadata'',
                    JObj [(''tool'', JStr ''createTask''),
                          (''description'', JStr ''buy milk''),
                          (''priority'', JStr ''medium''),
                          (''due_date'', JUndefined),
                          (''task_id'', JStr ''a1b2c3d4-e5f6-4789-a012-b3c4d5e6f780'')]),
                 (''contextItemId'', JStr ''a1b2c3d4-e5f6-4789-a012-b3c4d5e6f780''),
                 (''contextItemType'', JStr ''task''),
                 (''updatedItemType'', JStr ''task''),
                 (''actionIcon'', JStr ''task'')]), 1)"
proof -
  let ?odd = "JObj [(''tool'', JObj [(''toString'', JNum (Fin 1))]), (''toolParams'', JObj [(''a'', JNum (Fin 1))])]"
  let ?parsed = "JObj [(''aiResponseText'', JStr ''Done''),
                       (''selectedTool'', JStr ''createTask''),
                       (''parameters'', JObj [(''description'', JStr ''buy milk'')]),
                       (''contextItemId'', JStr ''forged''),
                       (''actionIcon'', JStr ''star'')]"
  let ?frag = "JObj
                  [(''actionMetadata'',
                      JObj [(''tool'', JStr ''createTask''),
                            (''description'', JStr ''buy milk''),
                            (''priority'', JStr ''medium''),
                            (''due_date'', JUndefined),
                            (''task_id'', JStr ''a1b2c3d4-e5f6-4789-a012-b3c4d5e6f780'')]),
                   (''contextItemId'', JStr ''a1b2c3d4-e5f6-4789-a012-b3c4d5e6f780''),
                   (''contextItemType'', JStr ''task''),
                   (''updatedItemType'', JStr ''task''),
                   (''actionIcon'', JStr ''task'')]"
  have a1: "brace_match ''a{b}c{d}e'' = Some ''{b}c{d}''" by code_simp
  have a2: "JSON_parse sample_env ''{b}c{d}'' = None" by code_simp
  have b1: "brace_match odd_tool_reply_text = Some odd_tool_reply_text" by code_simp
  have b2: "JSON_parse sample_env odd_tool_reply_text = Some ?odd" by code_simp
  have b3: "executeToolIfNeeded sample_env 0 ?odd
              = (Inl (new_Error ''Cannot convert object to primitive value''), 0)" by code_simp
  have c1: "brace_match alias_reply_text = Some alias_reply_text" by code_simp
  have c2: "JSON_parse sample_env alias_reply_text = Some ?parsed" by code_simp
  have c3: "executeToolIfNeeded sample_env 0 ?parsed = (Inr ?frag, 1)" by code_simp
  have A: "parseAIResponse sample_env 0 (JStr ''a{b}c{d}e'') = (plain_text_response (JStr ''a{b}c{d}e''), 0)"
    by (rule parseAIResponse_never_throws [of "''a{b}c{d}e''" sample_env 0,
          THEN conjunct2, THEN conjunct1, rule_format, OF conjI [OF a1 a2]])
  have B: "parseAIResponse sample_env 0 (JStr odd_tool_reply_text) = (plain_text_response (JStr odd_tool_reply_text), 0)"
    by (rule parseAIResponse_never_throws [of odd_tool_reply_text sample_env 0,
          THEN conjunct2, THEN conjunct2, THEN conjunct1, rule_format,
          OF conjI [OF b1 conjI [OF b2 b3]]])
  have C: "parseAIResponse sample_env 0 (JStr alias_reply_text) = (merged_response (JStr alias_reply_text) ?parsed ?frag, 1)"
    by (rule parseAIResponse_never_throws [of alias_reply_text sample_env 0,
          THEN conjunct2, THEN conjunct2, THEN conjunct2, THEN conjunct1, rule_format,
          OF conjI [OF c1 conjI [OF c2 c3]]])
  show ?thesis
    by (intro conjI) (rule a1, rule A, rule B, rule C)
qed

lemma fields_truthy_obj:
  "fields_truthy (JObj kvs) \<longleftrightarrow>
     (\<forall>f\<in>set merged_fields. case map_of kvs f of None \<Rightarrow> True | Some v \<Rightarrow> v = JUndefined \<or> truthy v)"
  by (auto simp: fields_truthy_def split: option.splits)

lemma valid_nonempty: "uuidRegex_test u \<Longrightarrow> u \<noteq> []"
  by (auto dest: uuidRegex_length)

lemma executeCreateTask_fields:
  assumes "executeCreateTask e n ps = (Inr r, n')"
  shows "fields_truthy r"
proof -
  from assms obtain u where u: "generateUUID e n = Inr u"
    and r: "r = JObj
                  [(''actionMetadata'',
                      JObj [(''tool'', JStr ''createTask''),
                            (''description'', JStr (trim (the_str (js_get ps ''description'')))),
                            (''priority'', js_or (js_get ps ''priority'') (JStr ''medium'')),
                            (''due_date'', js_get ps ''dueDate''),
                            (''task_id'', JStr u)]),
                   (''contextItemId'', JStr u),
                   (''contextItemType'', JStr ''task''),
                   (''updatedItemType'', JStr ''task''),
                   (''actionIcon'', JStr ''task'')]"
    by (auto simp: executeCreateTask_def Let_def rethrow_with_def split: if_splits sum.splits simp del: js_get.simps)
  from generateUUID_valid [OF u] have "u \<noteq> []" by (rule valid_nonempty)
  then show ?thesis unfolding r by (simp add: fields_truthy_obj merged_fields_def)
qed


lemma minted_nonempty: "generateUUID e n = Inr u \<Longrightarrow> u \<noteq> []"
  by (rule valid_nonempty) (rule generateUUID_valid)

lemma executeCreateReminder_fields:
  assumes "executeCreateReminder e n ps = (Inr r, n')"
  shows "fields_truthy r"
  using assms
  by (auto simp: executeCreateReminder_def Let_def rethrow_with_def fields_truthy_obj merged_fields_def
      split: if_splits sum.splits bool.splits dest: minted_nonempty simp del: js_get.simps)

lemma executeCreateGoal_fields:
  assumes "executeCreateGoal e n ps = (Inr r, n')"
  shows "fields_truthy r"
  using assms
  by (auto simp: executeCreateGoal_def Let_def rethrow_with_def fields_truthy_obj merged_fields_def
      split: if_splits sum.splits dest: minted_nonempty simp del: js_get.simps)

lemma executeCreateJournalEntry_fields:
  assumes "executeCreateJournalEntry e n ps = (Inr r, n')"
  shows "fields_truthy r"
  using assms
  by (auto simp: executeCreateJournalEntry_def Let_def rethrow_with_def fields_truthy_obj merged_fields_def
      split: if_splits sum.splits dest: minted_nonempty simp del: js_get.simps)

lemma executeTrackExpenses_fields:
  assumes "executeTrackExpenses e n ps = (Inr r, n')"
  shows "fields_truthy r"
  using assms
  by (auto simp: executeTrackExpenses_def Let_def rethrow_with_def fields_truthy_obj merged_fields_def
      split: if_splits sum.splits prod.splits simp del: js_get.simps)

lemma executeGeneralChat_fields:
  assumes "executeGeneralChat ps = Inr r"
  shows "fields_truthy r"
  using assms
  by (auto simp: executeGeneralChat_def Let_def rethrow_with_def fields_truthy_obj merged_fields_def
      split: if_splits simp del: js_get.simps)

lemma executeUpdateTask_fields:
  assumes "executeUpdateTask ps = Inr r"
  shows "fields_truthy r"
  using assms
  by (auto simp: executeUpdateTask_def Let_def rethrow_with_def fields_truthy_obj merged_fields_def
      split: if_splits simp del: js_get.simps)

lemma executeUpdateReminder_fields:
  assumes "executeUpdateReminder e ps = Inr r"
  shows "fields_truthy r"
  using assms
  by (auto simp: executeUpdateReminder_def Let_def rethrow_with_def fields_truthy_obj merged_fields_def
      split: if_splits sum.splits bool.splits simp del: js_get.simps)

lemma executeUpdateGoal_fields:
  assumes "executeUpdateGoal ps = Inr r"
  shows "fields_truthy r"
  using assms
  by (auto simp: executeUpdateGoal_def Let_def rethrow_with_def fields_truthy_obj merged_fields_def
      split: if_splits simp del: js_get.simps)

lemma run_tool_fields:
  assumes "run_tool e n t ps = (Inr r, n')"
  shows "fields_truthy r"
  using assms executeCreateTask_fields executeCreateReminder_fields executeCreateGoal_fields
    executeCreateJournalEntry_fields executeTrackExpenses_fields executeGeneralChat_fields
    executeUpdateTask_fields executeUpdateReminder_fields executeUpdateGoal_fields
  by (auto simp: run_tool_def split: if_splits sum.splits)

lemma executeToolIfNeeded_fields:
  assumes "executeToolIfNeeded e n parsed = (Inr r, n')"
  shows "fields_truthy r"
proof -
  have e0: "fields_truthy (JObj [])" by (simp add: fields_truthy_obj)
  have e1: "fields_truthy (JObj [(''errorDetails'', d)])" for d
    by (simp add: fields_truthy_obj merged_fields_def)
  from assms show ?thesis
    using e0 e1 run_tool_fields
    by (auto simp: executeToolIfNeeded_def Let_def createToolErrorResponse_def
        split: if_splits prod.splits sum.splits simp del: js_get.simps)
qed


lemma merged_response_get:
  "js_get (merged_response a parsed toolResult) ''actionMetadata'' =
     js_or (js_get toolResult ''actionMetadata'') (js_or (js_get parsed ''actionMetadata'') JNull)"
  "js_get (merged_response a parsed toolResult) ''contextItemId'' =
     js_or (js_get toolResult ''contextItemId'') (js_or (js_get parsed ''contextItemId'') JNull)"
  "js_get (merged_response a parsed toolResult) ''contextItemType'' =
     js_or (js_get toolResult ''contextItemType'') (js_or (js_get parsed ''contextItemType'') JNull)"
  "js_get (merged_response a parsed toolResult) ''updatedItemType'' =
     js_or (js_get toolResult ''updatedItemType'') (js_or (js_get parsed ''updatedItemType'') JNull)"
  "js_get (merged_response a parsed toolResult) ''actionIcon'' =
     js_or (js_get toolResult ''actionIcon'') (js_or (js_get parsed ''actionIcon'') JNull)"
  "js_get (merged_response a parsed toolResult) ''multipleActions'' =
     js_or (js_get toolResult ''multipleActions'') (js_or (js_get parsed ''multipleActions'') JNull)"
  by (simp_all add: merged_response_def)

lemma merged_fields_cases:
  "f \<in> set merged_fields \<Longrightarrow> f = ''actionMetadata'' \<or> f = ''contextItemId'' \<or> f = ''contextItemType''
    \<or> f = ''updatedItemType'' \<or> f = ''actionIcon'' \<or> f = ''multipleActions''"
  unfolding merged_fields_def by simp

lemma js_or_truthy: "truthy a \<Longrightarrow> js_or a b = a"
  by (simp add: js_or_def)

lemma merged_field_of_dispatcher:
  assumes "f \<in> set merged_fields" and "truthy (js_get toolResult f)"
  shows "js_get (merged_response a parsed toolResult) f = js_get toolResult f"
  using merged_fields_cases [OF assms(1)] assms(2)
  by (elim disjE) (simp_all only: merged_response_get js_or_truthy)

lemma alias_names:
  "executeToolIfNeeded e n (JObj [(''selectedTool'', t), (''parameters'', p)])
     = executeToolIfNeeded e n (JObj [(''tool'', t), (''toolParams'', p)])"
  by (simp add: executeToolIfNeeded_def js_or_def)

text \<open>
  Claim C2. When the text decodes and the dispatcher returns a fragment, each of
  the six merged fields that the fragment holds is, in the response, the
  fragment's value, whatever the model wrote under that name; and an envelope
  that names the tool and its parameters as \<open>selectedTool\<close> and \<open>parameters\<close>
  is dispatched as the one that names them \<open>tool\<close> and \<open>toolParams\<close>.
\<close>

theorem dispatcher_output_takes_precedence:
  assumes "brace_match s = Some m" and "JSON_parse e m = Some parsed"
    and "executeToolIfNeeded e n parsed = (Inr toolResult, n')"
    and "f \<in> set merged_fields" and "js_get toolResult f \<noteq> JUndefined"
  shows "parseAIResponse e n (JStr s) = (merged_response (JStr s) parsed toolResult, n')
       \<and> js_get (merged_response (JStr s) parsed toolResult) f = js_get toolResult f
       \<and> executeToolIfNeeded e n (JObj [(''selectedTool'', t), (''parameters'', p)])
            = executeToolIfNeeded e n (JObj [(''tool'', t), (''toolParams'', p)])"
proof -
  from executeToolIfNeeded_fields [OF assms(3)] assms(4,5)
  have "truthy (js_get toolResult f)" by (auto simp: fields_truthy_def)
  with assms(4) have "js_get (merged_response (JStr s) parsed toolResult) f = js_get toolResult f"
    by (rule merged_field_of_dispatcher)
  with parseAIResponse_merged [OF assms(1,2,3)] alias_names show ?thesis by simp
qed

theorem dispatcher_output_takes_precedence_witness:
  "js_get (fst (parseAIResponse sample_env 0 (JStr alias_reply_text))) ''contextItemId''
     = JStr ''a1b2c3d4-e5f6-4789-a012-b3c4d5e6f780''"
proof -
  let ?parsed = "JObj [(''aiResponseText'', JStr ''Done''),
                       (''selectedTool'', JStr ''createTask''),
                       (''parameters'', JObj [(''description'', JStr ''buy milk'')]),
                       (''contextItemId'', JStr ''forged''),
                       (''actionIcon'', JStr ''star'')]"
  let ?frag = "JObj
                  [(''actionMetadata'',
                      JObj [(''tool'', JStr ''createTask''),
                            (''description'', JStr ''buy milk''),
                            (''priority'', JStr ''medium''),
                            (''due_date'', JUndefined),
                            (''task_id'', JStr ''a1b2c3d4-e5f6-4789-a012-b3c4d5e6f780'')]),
                   (''contextItemId'', JStr ''a1b2c3d4-e5f6-4789-a012-b3c4d5e6f780''),
                   (''contextItemType'', JStr ''task''),
                   (''updatedItemType'', JStr ''task''),
                   (''actionIcon'', JStr ''task'')]"
  have 1: "brace_match alias_reply_text = Some alias_reply_text" by code_simp
  have 2: "JSON_parse sample_env alias_reply_text = Some ?parsed" by code_simp
  have 3: "executeToolIfNeeded sample_env 0 ?parsed = (Inr ?frag, 1)" by code_simp
  have 4: "''contextItemId'' \<in> set merged_fields" by (simp add: merged_fields_def)
  have 5: "js_get ?frag ''contextItemId'' \<noteq> JUndefined" by simp
  from dispatcher_output_takes_precedence [OF 1 2 3 4 5] show ?thesis by simp
qed

lemma merged_errorDetails:
  "js_get (merged_response a parsed toolResult) ''errorDetails'' = js_or (js_get parsed ''errorDetails'') JNull"
  by (simp add: merged_response_def)

text \<open>
  Claim C1 fails on the code. The model's reply asks for \<open>createTask\<close> without
  a description: the dispatcher returns its failure fragment, and the response
  that \<open>parseAIResponse\<close> builds has \<open>errorDetails\<close> \<open>null\<close> (and
  \<open>actionMetadata\<close> \<open>null\<close>), since the merge reads \<open>errorDetails\<close> from the
  model's object only.
\<close>

theorem dispatcher_failure_lost_in_merge:
  "fst (executeToolIfNeeded sample_env 0 (JObj [(''tool'', JStr ''createTask''), (''toolParams'', JObj [])]))
     = Inr (JObj [(''errorDetails'',
          errorResponse sample_env (JStr ''createTask'')
            ((coded_Error ''Task description is required and must be a string'' ''INVALID_PARAMETERS'')
               \<lparr>tool := Some ''createTask'', params := Some (JObj [])\<rparr>)
            (JObj []))])
   \<and> createToolErrorResponse sample_env (JStr ''createTask'')
            ((coded_Error ''Task description is required and must be a string'' ''INVALID_PARAMETERS'')
               \<lparr>tool := Some ''createTask'', params := Some (JObj [])\<rparr>)
            (JObj [])
        = Inr (errorResponse sample_env (JStr ''createTask'')
            ((coded_Error ''Task description is required and must be a string'' ''INVALID_PARAMETERS'')
               \<lparr>tool := Some ''createTask'', params := Some (JObj [])\<rparr>)
            (JObj []))
   \<and> brace_match createTask_reply_text = Some createTask_reply_text
   \<and> JSON_parse sample_env createTask_reply_text
        = Some (JObj [(''tool'', JStr ''createTask''), (''toolParams'', JObj [])])
   \<and> fst (parseAIResponse sample_env 0 (JStr createTask_reply_text))
        = JObj [(''aiResponseText'', JStr createTask_reply_text),
                (''actionMetadata'', JNull),
                (''contextItemId'', JNull),
                (''contextItemType'', JNull),
                (''updatedItemType'', JNull),
                (''actionIcon'', JNull),
                (''multipleActions'', JNull),
                (''errorDetails'', JNull)]"
  by code_simp

end
